theory Spec2Isabelle
  imports Main
begin

section \<open>Values exchanged with the chat platform and the services\<close>

text \<open>
  The bot of \<^verbatim>\<open>src/rag-yandex-bot/bot.py\<close> works on decoded JSON: an update, a message
  and the body of the generation service are Python values built from \<^verbatim>\<open>None\<close>, booleans,
  integers, strings, lists and dicts. A dict is kept as the list of its items and read by key.
  A Python \<^verbatim>\<open>str\<close> is kept as the bytes of its UTF-8 encoding: the source compares strings,
  looks them up as keys and tests prefixes and substrings, and each of these gives the same
  answer on the encoding as on the code points. Numbers with a fractional part are left out.
\<close>

datatype json =
    JNull
  | JBool bool
  | JInt int
  | JStr string
  | JArr "json list"
  | JObj "(string \<times> json) list"

text \<open>The exceptions the code can meet. \<open>OtherException\<close> stands for whatever a service raises.\<close>

datatype error =
    AttributeError
  | TypeError
  | KeyError
  | IndexError
  | OtherException string

text \<open>\<^verbatim>\<open>s.startswith(p)\<close>.\<close>

fun startswith :: "string \<Rightarrow> string \<Rightarrow> bool" where
  "startswith s [] = True"
| "startswith [] (p # ps) = False"
| "startswith (c # cs) (p # ps) = (c = p \<and> startswith cs ps)"

text \<open>\<^verbatim>\<open>sub in s\<close> for two strings.\<close>

fun str_contains :: "string \<Rightarrow> string \<Rightarrow> bool" where
  "str_contains [] sub = (sub = [])"
| "str_contains (c # cs) sub = (startswith (c # cs) sub \<or> str_contains cs sub)"

text \<open>
  \<^verbatim>\<open>obj.get(key, default)\<close>: only a dict has the method; every other value raises
  \<^verbatim>\<open>AttributeError\<close>.
\<close>

fun py_get :: "json \<Rightarrow> string \<Rightarrow> json \<Rightarrow> error + json" where
  "py_get (JObj kvs) k d = Inr (case map_of kvs k of None \<Rightarrow> d | Some v \<Rightarrow> v)"
| "py_get JNull k d = Inl AttributeError"
| "py_get (JBool b) k d = Inl AttributeError"
| "py_get (JInt n) k d = Inl AttributeError"
| "py_get (JStr s) k d = Inl AttributeError"
| "py_get (JArr xs) k d = Inl AttributeError"

text \<open>
  \<^verbatim>\<open>obj[key]\<close> with a string key: a dict without the key raises \<^verbatim>\<open>KeyError\<close>, every
  value that is not a dict raises \<^verbatim>\<open>TypeError\<close>.
\<close>

fun py_getitem :: "json \<Rightarrow> string \<Rightarrow> error + json" where
  "py_getitem (JObj kvs) k = (case map_of kvs k of None \<Rightarrow> Inl KeyError | Some v \<Rightarrow> Inr v)"
| "py_getitem JNull k = Inl TypeError"
| "py_getitem (JBool b) k = Inl TypeError"
| "py_getitem (JInt n) k = Inl TypeError"
| "py_getitem (JStr s) k = Inl TypeError"
| "py_getitem (JArr xs) k = Inl TypeError"

text \<open>
  \<^verbatim>\<open>key in obj\<close> with a string key: the keys of a dict, the substrings of a string, the
  elements of a list; \<^verbatim>\<open>None\<close>, booleans and integers raise \<^verbatim>\<open>TypeError\<close>.
\<close>

fun py_contains :: "json \<Rightarrow> string \<Rightarrow> error + bool" where
  "py_contains (JObj kvs) k = Inr (map_of kvs k \<noteq> None)"
| "py_contains (JStr s) k = Inr (str_contains s k)"
| "py_contains (JArr xs) k = Inr (JStr k \<in> set xs)"
| "py_contains JNull k = Inl TypeError"
| "py_contains (JBool b) k = Inl TypeError"
| "py_contains (JInt n) k = Inl TypeError"

text \<open>Python truth value: \<^verbatim>\<open>not v\<close> holds exactly for the values that are not \<open>truthy\<close>.\<close>

fun truthy :: "json \<Rightarrow> bool" where
  "truthy JNull = False"
| "truthy (JBool b) = b"
| "truthy (JInt n) = (n \<noteq> 0)"
| "truthy (JStr s) = (s \<noteq> [])"
| "truthy (JArr xs) = (xs \<noteq> [])"
| "truthy (JObj kvs) = (kvs \<noteq> [])"

text \<open>\<^verbatim>\<open>isinstance(v, dict)\<close>.\<close>

fun is_dict :: "json \<Rightarrow> bool" where
  "is_dict (JObj kvs) = True"
| "is_dict JNull = False"
| "is_dict (JBool b) = False"
| "is_dict (JInt n) = False"
| "is_dict (JStr s) = False"
| "is_dict (JArr xs) = False"

text \<open>
  \<^verbatim>\<open>v + 1\<close> (line 186): an integer is incremented, a boolean counts as 0 or 1, every other
  value raises \<^verbatim>\<open>TypeError\<close>.
\<close>

fun py_add_one :: "json \<Rightarrow> error + int" where
  "py_add_one (JInt n) = Inr (n + 1)"
| "py_add_one (JBool b) = Inr ((if b then 1 else 0) + 1)"
| "py_add_one JNull = Inl TypeError"
| "py_add_one (JStr s) = Inl TypeError"
| "py_add_one (JArr xs) = Inl TypeError"
| "py_add_one (JObj kvs) = Inl TypeError"

section \<open>The replies of the bot\<close>

text \<open>
  The string literals of the handlers, as the bytes of their UTF-8 encoding (they are Russian
  text with an emoji in front).
\<close>

text \<open>bot.py line 61: the notice that the button function is temporarily unavailable in RAG mode.\<close>

definition MSG_UNSUPPORTED :: string where
  "MSG_UNSUPPORTED =
    [CHR 0xE2, CHR 0x9A, CHR 0xA0, CHR 0xEF, CHR 0xB8, CHR 0x8F, CHR 0x20, CHR 0xD0,
     CHR 0xAD, CHR 0xD1, CHR 0x82, CHR 0xD0, CHR 0xB0, CHR 0x20, CHR 0xD1, CHR 0x84,
     CHR 0xD1, CHR 0x83, CHR 0xD0, CHR 0xBD, CHR 0xD0, CHR 0xBA, CHR 0xD1, CHR 0x86,
     CHR 0xD0, CHR 0xB8, CHR 0xD1, CHR 0x8F, CHR 0x20, CHR 0xD0, CHR 0xB2, CHR 0xD1,
     CHR 0x80, CHR 0xD0, CHR 0xB5, CHR 0xD0, CHR 0xBC, CHR 0xD0, CHR 0xB5, CHR 0xD0,
     CHR 0xBD, CHR 0xD0, CHR 0xBD, CHR 0xD0, CHR 0xBE, CHR 0x20, CHR 0xD0, CHR 0xBD,
     CHR 0xD0, CHR 0xB5, CHR 0xD0, CHR 0xB4, CHR 0xD0, CHR 0xBE, CHR 0xD1, CHR 0x81,
     CHR 0xD1, CHR 0x82, CHR 0xD1, CHR 0x83, CHR 0xD0, CHR 0xBF, CHR 0xD0, CHR 0xBD,
     CHR 0xD0, CHR 0xB0, CHR 0x20, CHR 0xD0, CHR 0xB2, CHR 0x20, CHR 0xD1, CHR 0x80,
     CHR 0xD0, CHR 0xB5, CHR 0xD0, CHR 0xB6, CHR 0xD0, CHR 0xB8, CHR 0xD0, CHR 0xBC,
     CHR 0xD0, CHR 0xB5, CHR 0x20, CHR 0x52, CHR 0x41, CHR 0x47, CHR 0x2D, CHR 0xD0,
     CHR 0xB1, CHR 0xD0, CHR 0xBE, CHR 0xD1, CHR 0x82, CHR 0xD0, CHR 0xB0, CHR 0x2E]"

text \<open>bot.py lines 85-87: the static greeting (three concatenated literals).\<close>

definition MSG_GREETING :: string where
  "MSG_GREETING =
    [CHR 0xF0, CHR 0x9F, CHR 0x91, CHR 0x8B, CHR 0x20, CHR 0xD0, CHR 0x9F, CHR 0xD1,
     CHR 0x80, CHR 0xD0, CHR 0xB8, CHR 0xD0, CHR 0xB2, CHR 0xD0, CHR 0xB5, CHR 0xD1,
     CHR 0x82, CHR 0x21, CHR 0x20, CHR 0xD0, CHR 0xAF, CHR 0x20, CHR 0x52, CHR 0x41,
     CHR 0x47, CHR 0x2D, CHR 0xD0, CHR 0xB1, CHR 0xD0, CHR 0xBE, CHR 0xD1, CHR 0x82,
     CHR 0x20, CHR 0xD0, CHR 0xB4, CHR 0xD0, CHR 0xBB, CHR 0xD1, CHR 0x8F, CHR 0x20,
     CHR 0xD0, CHR 0xBF, CHR 0xD0, CHR 0xBE, CHR 0xD0, CHR 0xB8, CHR 0xD1, CHR 0x81,
     CHR 0xD0, CHR 0xBA, CHR 0xD0, CHR 0xB0, CHR 0x20, CHR 0xD0, CHR 0xBF, CHR 0xD0,
     CHR 0xBE, CHR 0x20, CHR 0xD0, CHR 0x92, CHR 0xD0, CHR 0x9D, CHR 0xD0, CHR 0x94,
     CHR 0x2E, CHR 0x0A, CHR 0x0A, CHR 0xE2, CHR 0x9D, CHR 0x93, CHR 0x20, CHR 0xD0,
     CHR 0x97, CHR 0xD0, CHR 0xB0, CHR 0xD0, CHR 0xB4, CHR 0xD0, CHR 0xB0, CHR 0xD0,
     CHR 0xB9, CHR 0xD1, CHR 0x82, CHR 0xD0, CHR 0xB5, CHR 0x20, CHR 0xD0, CHR 0xBC,
     CHR 0xD0, CHR 0xBD, CHR 0xD0, CHR 0xB5, CHR 0x20, CHR 0xD0, CHR 0xBB, CHR 0xD1,
     CHR 0x8E, CHR 0xD0, CHR 0xB1, CHR 0xD0, CHR 0xBE, CHR 0xD0, CHR 0xB9, CHR 0x20,
     CHR 0xD0, CHR 0xB2, CHR 0xD0, CHR 0xBE, CHR 0xD0, CHR 0xBF, CHR 0xD1, CHR 0x80,
     CHR 0xD0, CHR 0xBE, CHR 0xD1, CHR 0x81, CHR 0x20, CHR 0xD0, CHR 0xBF, CHR 0xD0,
     CHR 0xBE, CHR 0x20, CHR 0xD0, CHR 0xB2, CHR 0xD0, CHR 0xBD, CHR 0xD1, CHR 0x83,
     CHR 0xD1, CHR 0x82, CHR 0xD1, CHR 0x80, CHR 0xD0, CHR 0xB5, CHR 0xD0, CHR 0xBD,
     CHR 0xD0, CHR 0xBD, CHR 0xD0, CHR 0xB8, CHR 0xD0, CHR 0xBC, CHR 0x20, CHR 0xD0,
     CHR 0xB4, CHR 0xD0, CHR 0xBE, CHR 0xD0, CHR 0xBA, CHR 0xD1, CHR 0x83, CHR 0xD0,
     CHR 0xBC, CHR 0xD0, CHR 0xB5, CHR 0xD0, CHR 0xBD, CHR 0xD1, CHR 0x82, CHR 0xD0,
     CHR 0xB0, CHR 0xD0, CHR 0xBC, CHR 0x2C, CHR 0x20, CHR 0xD0, CHR 0xB8, CHR 0x20,
     CHR 0xD1, CHR 0x8F, CHR 0x20, CHR 0xD0, CHR 0xBD, CHR 0xD0, CHR 0xB0, CHR 0xD0,
     CHR 0xB9, CHR 0xD0, CHR 0xB4, CHR 0xD1, CHR 0x83, CHR 0x20, CHR 0xD0, CHR 0xBE,
     CHR 0xD1, CHR 0x82, CHR 0xD0, CHR 0xB2, CHR 0xD0, CHR 0xB5, CHR 0xD1, CHR 0x82,
     CHR 0x2E, CHR 0x0A, CHR 0xF0, CHR 0x9F, CHR 0x93, CHR 0x82, CHR 0x20, CHR 0xD0,
     CHR 0x91, CHR 0xD0, CHR 0xB0, CHR 0xD0, CHR 0xB7, CHR 0xD0, CHR 0xB0, CHR 0x20,
     CHR 0xD0, CHR 0xB7, CHR 0xD0, CHR 0xBD, CHR 0xD0, CHR 0xB0, CHR 0xD0, CHR 0xBD,
     CHR 0xD0, CHR 0xB8, CHR 0xD0, CHR 0xB9, CHR 0x20, CHR 0xD0, CHR 0xBE, CHR 0xD0,
     CHR 0xB1, CHR 0xD0, CHR 0xBD, CHR 0xD0, CHR 0xBE, CHR 0xD0, CHR 0xB2, CHR 0xD0,
     CHR 0xBB, CHR 0xD1, CHR 0x8F, CHR 0xD0, CHR 0xB5, CHR 0xD1, CHR 0x82, CHR 0xD1,
     CHR 0x81, CHR 0xD1, CHR 0x8F, CHR 0x20, CHR 0xD0, CHR 0xB0, CHR 0xD0, CHR 0xB2,
     CHR 0xD1, CHR 0x82, CHR 0xD0, CHR 0xBE, CHR 0xD0, CHR 0xBC, CHR 0xD0, CHR 0xB0,
     CHR 0xD1, CHR 0x82, CHR 0xD0, CHR 0xB8, CHR 0xD1, CHR 0x87, CHR 0xD0, CHR 0xB5,
     CHR 0xD1, CHR 0x81, CHR 0xD0, CHR 0xBA, CHR 0xD0, CHR 0xB8, CHR 0x2E]"

text \<open>bot.py line 93: the acknowledgment notice (searching for information).\<close>

definition MSG_SEARCHING :: string where
  "MSG_SEARCHING =
    [CHR 0xF0, CHR 0x9F, CHR 0x94, CHR 0x8D, CHR 0x20, CHR 0xD0, CHR 0x98, CHR 0xD1,
     CHR 0x89, CHR 0xD1, CHR 0x83, CHR 0x20, CHR 0xD0, CHR 0xB8, CHR 0xD0, CHR 0xBD,
     CHR 0xD1, CHR 0x84, CHR 0xD0, CHR 0xBE, CHR 0xD1, CHR 0x80, CHR 0xD0, CHR 0xBC,
     CHR 0xD0, CHR 0xB0, CHR 0xD1, CHR 0x86, CHR 0xD0, CHR 0xB8, CHR 0xD1, CHR 0x8E,
     CHR 0x2E, CHR 0x2E, CHR 0x2E]"

text \<open>bot.py line 97: the reply when the OpenAI client is not configured.\<close>

definition MSG_NOT_CONFIGURED :: string where
  "MSG_NOT_CONFIGURED =
    [CHR 0xE2, CHR 0x9D, CHR 0x8C, CHR 0x20, CHR 0xD0, CHR 0x9E, CHR 0xD1, CHR 0x88,
     CHR 0xD0, CHR 0xB8, CHR 0xD0, CHR 0xB1, CHR 0xD0, CHR 0xBA, CHR 0xD0, CHR 0xB0,
     CHR 0x3A, CHR 0x20, CHR 0x4F, CHR 0x70, CHR 0x65, CHR 0x6E, CHR 0x41, CHR 0x49,
     CHR 0x20, CHR 0xD0, CHR 0xBA, CHR 0xD0, CHR 0xBB, CHR 0xD0, CHR 0xB8, CHR 0xD0,
     CHR 0xB5, CHR 0xD0, CHR 0xBD, CHR 0xD1, CHR 0x82, CHR 0x20, CHR 0xD0, CHR 0xBD,
     CHR 0xD0, CHR 0xB5, CHR 0x20, CHR 0xD0, CHR 0xBD, CHR 0xD0, CHR 0xB0, CHR 0xD1,
     CHR 0x81, CHR 0xD1, CHR 0x82, CHR 0xD1, CHR 0x80, CHR 0xD0, CHR 0xBE, CHR 0xD0,
     CHR 0xB5, CHR 0xD0, CHR 0xBD, CHR 0x2E]"

text \<open>bot.py line 115: the reply when the search has no hit (no information found).\<close>

definition MSG_NOT_FOUND :: string where
  "MSG_NOT_FOUND =
    [CHR 0xE2, CHR 0x9A, CHR 0xA0, CHR 0xEF, CHR 0xB8, CHR 0x8F, CHR 0x20, CHR 0xD0,
     CHR 0x9A, CHR 0x20, CHR 0xD1, CHR 0x81, CHR 0xD0, CHR 0xBE, CHR 0xD0, CHR 0xB6,
     CHR 0xD0, CHR 0xB0, CHR 0xD0, CHR 0xBB, CHR 0xD0, CHR 0xB5, CHR 0xD0, CHR 0xBD,
     CHR 0xD0, CHR 0xB8, CHR 0xD1, CHR 0x8E, CHR 0x2C, CHR 0x20, CHR 0xD1, CHR 0x8F,
     CHR 0x20, CHR 0xD0, CHR 0xBD, CHR 0xD0, CHR 0xB5, CHR 0x20, CHR 0xD0, CHR 0xBD,
     CHR 0xD0, CHR 0xB0, CHR 0xD1, CHR 0x88, CHR 0xD0, CHR 0xB5, CHR 0xD0, CHR 0xBB,
     CHR 0x20, CHR 0xD0, CHR 0xB8, CHR 0xD0, CHR 0xBD, CHR 0xD1, CHR 0x84, CHR 0xD0,
     CHR 0xBE, CHR 0xD1, CHR 0x80, CHR 0xD0, CHR 0xBC, CHR 0xD0, CHR 0xB0, CHR 0xD1,
     CHR 0x86, CHR 0xD0, CHR 0xB8, CHR 0xD0, CHR 0xB8, CHR 0x20, CHR 0xD0, CHR 0xBF,
     CHR 0xD0, CHR 0xBE, CHR 0x20, CHR 0xD0, CHR 0xB2, CHR 0xD0, CHR 0xB0, CHR 0xD1,
     CHR 0x88, CHR 0xD0, CHR 0xB5, CHR 0xD0, CHR 0xBC, CHR 0xD1, CHR 0x83, CHR 0x20,
     CHR 0xD0, CHR 0xB2, CHR 0xD0, CHR 0xBE, CHR 0xD0, CHR 0xBF, CHR 0xD1, CHR 0x80,
     CHR 0xD0, CHR 0xBE, CHR 0xD1, CHR 0x81, CHR 0xD1, CHR 0x83, CHR 0x20, CHR 0xD0,
     CHR 0xB2, CHR 0x20, CHR 0xD0, CHR 0xB1, CHR 0xD0, CHR 0xB0, CHR 0xD0, CHR 0xB7,
     CHR 0xD0, CHR 0xB5, CHR 0x20, CHR 0xD0, CHR 0xB7, CHR 0xD0, CHR 0xBD, CHR 0xD0,
     CHR 0xB0, CHR 0xD0, CHR 0xBD, CHR 0xD0, CHR 0xB8, CHR 0xD0, CHR 0xB9, CHR 0x2E]"

text \<open>bot.py line 135: the default of the answer field (empty answer from the LLM).\<close>

definition MSG_EMPTY_ANSWER :: string where
  "MSG_EMPTY_ANSWER =
    [CHR 0xD0, CHR 0x9F, CHR 0xD1, CHR 0x83, CHR 0xD1, CHR 0x81, CHR 0xD1, CHR 0x82,
     CHR 0xD0, CHR 0xBE, CHR 0xD0, CHR 0xB9, CHR 0x20, CHR 0xD0, CHR 0xBE, CHR 0xD1,
     CHR 0x82, CHR 0xD0, CHR 0xB2, CHR 0xD0, CHR 0xB5, CHR 0xD1, CHR 0x82, CHR 0x20,
     CHR 0xD0, CHR 0xBE, CHR 0xD1, CHR 0x82, CHR 0x20, CHR 0x4C, CHR 0x4C, CHR 0x4D]"

text \<open>bot.py line 143: the reply when the generation service answers with an error status.\<close>

definition MSG_GENERATION_FAILED :: string where
  "MSG_GENERATION_FAILED =
    [CHR 0xE2, CHR 0x9D, CHR 0x8C, CHR 0x20, CHR 0xD0, CHR 0x9E, CHR 0xD1, CHR 0x88,
     CHR 0xD0, CHR 0xB8, CHR 0xD0, CHR 0xB1, CHR 0xD0, CHR 0xBA, CHR 0xD0, CHR 0xB0,
     CHR 0x20, CHR 0xD0, CHR 0xBF, CHR 0xD1, CHR 0x80, CHR 0xD0, CHR 0xB8, CHR 0x20,
     CHR 0xD0, CHR 0xB3, CHR 0xD0, CHR 0xB5, CHR 0xD0, CHR 0xBD, CHR 0xD0, CHR 0xB5,
     CHR 0xD1, CHR 0x80, CHR 0xD0, CHR 0xB0, CHR 0xD1, CHR 0x86, CHR 0xD0, CHR 0xB8,
     CHR 0xD0, CHR 0xB8, CHR 0x20, CHR 0xD0, CHR 0xBE, CHR 0xD1, CHR 0x82, CHR 0xD0,
     CHR 0xB2, CHR 0xD0, CHR 0xB5, CHR 0xD1, CHR 0x82, CHR 0xD0, CHR 0xB0, CHR 0x2E]"

text \<open>bot.py line 147: the reply of the exception handler (internal error).\<close>

definition MSG_INTERNAL_ERROR :: string where
  "MSG_INTERNAL_ERROR =
    [CHR 0xE2, CHR 0x9D, CHR 0x8C, CHR 0x20, CHR 0xD0, CHR 0x9F, CHR 0xD1, CHR 0x80,
     CHR 0xD0, CHR 0xBE, CHR 0xD0, CHR 0xB8, CHR 0xD0, CHR 0xB7, CHR 0xD0, CHR 0xBE,
     CHR 0xD1, CHR 0x88, CHR 0xD0, CHR 0xBB, CHR 0xD0, CHR 0xB0, CHR 0x20, CHR 0xD0,
     CHR 0xB2, CHR 0xD0, CHR 0xBD, CHR 0xD1, CHR 0x83, CHR 0xD1, CHR 0x82, CHR 0xD1,
     CHR 0x80, CHR 0xD0, CHR 0xB5, CHR 0xD0, CHR 0xBD, CHR 0xD0, CHR 0xBD, CHR 0xD1,
     CHR 0x8F, CHR 0xD1, CHR 0x8F, CHR 0x20, CHR 0xD0, CHR 0xBE, CHR 0xD1, CHR 0x88,
     CHR 0xD0, CHR 0xB8, CHR 0xD0, CHR 0xB1, CHR 0xD0, CHR 0xBA, CHR 0xD0, CHR 0xB0,
     CHR 0x2E]"

section \<open>External collaborators and observable effects\<close>

text \<open>
  What a handler does to the outside world, in order: a message sent through the chat client,
  a call of the embedding provider, of the vector store or of the generation service, and an
  error line in the log. The type \<open>'v\<close> is the type of embedding vectors.
\<close>

datatype log_entry =
    RagBotError string
  | RagFlowError error

datatype 'v action =
    Send json json
  | EmbeddingsCreate string
  | QdrantSearch 'v
  | SessionPost json
  | LogError log_entry

text \<open>
  The response of the generation service as the code reads it: \<^verbatim>\<open>response.status\<close>,
  \<^verbatim>\<open>await response.json()\<close> and \<^verbatim>\<open>await response.text()\<close>; the last two can raise.
\<close>

record response =
  status :: int
  json_result :: "error + json"
  text_result :: "error + string"

text \<open>
  The module-level clients of lines 48-52 and the HTTP session of line 131, as the functions
  the handler calls on them. \<open>openai_client\<close> is \<open>None\<close> when no API key is configured;
  otherwise it maps the input text to the embeddings of \<^verbatim>\<open>embedding_resp.data\<close>, one per
  item. \<open>qdrant_search\<close> returns the payload of each hit, in the order of the store.
  The configured model, collection, limit and endpoint are fixed inside the functions.
\<close>

record 'v env =
  openai_client :: "(string \<Rightarrow> error + 'v list) option"
  qdrant_search :: "'v \<Rightarrow> error + json list"
  session_post :: "json \<Rightarrow> error + response"

text \<open>
  Modelled from the spec: \<^verbatim>\<open>YandexMessengerClient.send_message\<close> of the module
  \<^verbatim>\<open>yandex_api\<close>, which is not among the sources. It makes one best-effort attempt and
  reports success or failure as a value (section 4.5 of the specification); the handlers ignore
  that value, so a send is the action \<open>Send chat_id text\<close> and nothing else.
\<close>

definition send_message :: "json \<Rightarrow> json \<Rightarrow> 'v action list" where
  "send_message chat_id text = [Send chat_id text]"

text \<open>The messages a trace sends, as pairs of chat identifier and text.\<close>

fun outbound :: "'v action list \<Rightarrow> (json \<times> json) list" where
  "outbound [] = []"
| "outbound (Send c t # as) = (c, t) # outbound as"
| "outbound (EmbeddingsCreate s # as) = outbound as"
| "outbound (QdrantSearch v # as) = outbound as"
| "outbound (SessionPost p # as) = outbound as"
| "outbound (LogError l # as) = outbound as"

text \<open>The requests a trace makes to the generation service.\<close>

fun generation_calls :: "'v action list \<Rightarrow> json list" where
  "generation_calls [] = []"
| "generation_calls (SessionPost p # as) = p # generation_calls as"
| "generation_calls (Send c t # as) = generation_calls as"
| "generation_calls (EmbeddingsCreate s # as) = generation_calls as"
| "generation_calls (QdrantSearch v # as) = generation_calls as"
| "generation_calls (LogError l # as) = generation_calls as"

text \<open>The calls a trace makes to any stage of the retrieval pipeline.\<close>

fun pipeline_calls :: "'v action list \<Rightarrow> 'v action list" where
  "pipeline_calls [] = []"
| "pipeline_calls (Send c t # as) = pipeline_calls as"
| "pipeline_calls (LogError l # as) = pipeline_calls as"
| "pipeline_calls (EmbeddingsCreate s # as) = EmbeddingsCreate s # pipeline_calls as"
| "pipeline_calls (QdrantSearch v # as) = QdrantSearch v # pipeline_calls as"
| "pipeline_calls (SessionPost p # as) = SessionPost p # pipeline_calls as"

section \<open>The handlers\<close>

text \<open>
  A handler is a coroutine run as a task: its result is the trace of its actions and the
  exception that ended it, if one did (\<open>None\<close> when it returned).
\<close>

type_synonym 'v outcome = "'v action list \<times> error option"

text \<open>\<^verbatim>\<open>handle_callback_query\<close>, lines 55-61.\<close>

definition handle_callback_query :: "json \<Rightarrow> 'v outcome" where
  "handle_callback_query callback_query =
     (case py_get callback_query ''from'' (JObj []) of
        Inl e \<Rightarrow> ([], Some e)
      | Inr sender \<Rightarrow>
          (case py_get sender ''login'' JNull of
             Inl e \<Rightarrow> ([], Some e)
           | Inr chat_id \<Rightarrow>
               if truthy chat_id then (send_message chat_id (JStr MSG_UNSUPPORTED), None)
               else ([], None)))"

text \<open>
  Lines 69-74 of \<^verbatim>\<open>handle_text_message\<close>: the chat identifier of a message, the field
  \<^verbatim>\<open>chat.chat_id\<close> or else, in a private chat, \<^verbatim>\<open>from.login\<close>. The test of line 73
  evaluates its three conjuncts from left to right and stops at the first false one.
\<close>

definition chat_id_of :: "json \<Rightarrow> error + json" where
  "chat_id_of message =
     (case py_get message ''chat'' (JObj []) of
        Inl e \<Rightarrow> Inl e
      | Inr chat_info \<Rightarrow>
          (case (if is_dict chat_info then py_get chat_info ''chat_id'' JNull else Inr JNull) of
             Inl e \<Rightarrow> Inl e
           | Inr chat_id \<Rightarrow>
               if truthy chat_id then Inr chat_id
               else
                 (case py_contains message ''from'' of
                    Inl e \<Rightarrow> Inl e
                  | Inr False \<Rightarrow> Inr chat_id
                  | Inr True \<Rightarrow>
                      (case py_get chat_info ''type'' JNull of
                         Inl e \<Rightarrow> Inl e
                       | Inr t \<Rightarrow>
                           if t = JStr ''private'' then
                             (case py_get message ''from'' (JObj []) of
                                Inl e \<Rightarrow> Inl e
                              | Inr sender \<Rightarrow> py_get sender ''login'' JNull)
                           else Inr chat_id))))"

text \<open>Lines 119-122: the context list built from the hits, one entry per payload.\<close>

definition context_entry :: "json \<Rightarrow> error + json" where
  "context_entry payload =
     (case py_getitem payload ''text'' of
        Inl e \<Rightarrow> Inl e
      | Inr t \<Rightarrow>
          (case py_get payload ''source_file'' (JStr ''unknown'') of
             Inl e \<Rightarrow> Inl e
           | Inr f \<Rightarrow> Inr (JObj [(''text'', t), (''file'', f)])))"

fun build_context :: "json list \<Rightarrow> error + json list" where
  "build_context [] = Inr []"
| "build_context (payload # rest) =
     (case context_entry payload of
        Inl e \<Rightarrow> Inl e
      | Inr c \<Rightarrow> (case build_context rest of Inl e \<Rightarrow> Inl e | Inr cs \<Rightarrow> Inr (c # cs)))"

text \<open>Lines 125-129: the request sent to the generation service.\<close>

definition question_payload :: "string \<Rightarrow> json list \<Rightarrow> json" where
  "question_payload text context =
     JObj [(''question'', JStr text),
           (''context'', JArr context),
           (''model_provider'', JStr ''openai'')]"

text \<open>
  The body of the \<^verbatim>\<open>try\<close> statement, lines 93-143: the trace so far and the exception
  that left the block, if any.
\<close>

definition rag_try :: "'v env \<Rightarrow> json \<Rightarrow> string \<Rightarrow> 'v outcome" where
  "rag_try env chat_id text =
     (let t0 = send_message chat_id (JStr MSG_SEARCHING) in
      case openai_client env of
        None \<Rightarrow> (t0 @ send_message chat_id (JStr MSG_NOT_CONFIGURED), None)
      | Some embeddings_create \<Rightarrow>
          (let t1 = t0 @ [EmbeddingsCreate text] in
           case embeddings_create text of
             Inl e \<Rightarrow> (t1, Some e)
           | Inr [] \<Rightarrow> (t1, Some IndexError)
           | Inr (question_embedding # others) \<Rightarrow>
               (let t2 = t1 @ [QdrantSearch question_embedding] in
                case qdrant_search env question_embedding of
                  Inl e \<Rightarrow> (t2, Some e)
                | Inr search_results \<Rightarrow>
                    if search_results = [] then
                      (t2 @ send_message chat_id (JStr MSG_NOT_FOUND), None)
                    else
                      (case build_context search_results of
                         Inl e \<Rightarrow> (t2, Some e)
                       | Inr context \<Rightarrow>
                           (let payload = question_payload text context;
                                t3 = t2 @ [SessionPost payload] in
                            case session_post env payload of
                              Inl e \<Rightarrow> (t3, Some e)
                            | Inr response \<Rightarrow>
                                if status response = 200 then
                                  (case json_result response of
                                     Inl e \<Rightarrow> (t3, Some e)
                                   | Inr result \<Rightarrow>
                                       (case py_get result ''answer'' (JStr MSG_EMPTY_ANSWER) of
                                          Inl e \<Rightarrow> (t3, Some e)
                                        | Inr answer \<Rightarrow>
                                            (t3 @ send_message chat_id answer, None)))
                                else
                                  (case text_result response of
                                     Inl e \<Rightarrow> (t3, Some e)
                                   | Inr error_text \<Rightarrow>
                                       (t3 @ [LogError (RagBotError error_text)]
                                           @ send_message chat_id (JStr MSG_GENERATION_FAILED),
                                        None)))))))"

text \<open>
  The \<^verbatim>\<open>try\<close> statement with its handler, lines 92-147: an exception is logged and
  answered with the internal-error reply.
\<close>

definition rag_logic :: "'v env \<Rightarrow> json \<Rightarrow> string \<Rightarrow> 'v outcome" where
  "rag_logic env chat_id text =
     (case rag_try env chat_id text of
        (t, None) \<Rightarrow> (t, None)
      | (t, Some e) \<Rightarrow>
          (t @ [LogError (RagFlowError e)] @ send_message chat_id (JStr MSG_INTERNAL_ERROR),
           None))"

text \<open>
  \<^verbatim>\<open>handle_text_message\<close>, lines 64-147. A text that is not a string has no
  \<^verbatim>\<open>startswith\<close>, which raises outside the \<^verbatim>\<open>try\<close> statement.
\<close>

definition handle_text_message :: "'v env \<Rightarrow> json \<Rightarrow> 'v outcome" where
  "handle_text_message env message =
     (case chat_id_of message of
        Inl e \<Rightarrow> ([], Some e)
      | Inr chat_id \<Rightarrow>
          (case py_get message ''text'' (JStr []) of
             Inl e \<Rightarrow> ([], Some e)
           | Inr text \<Rightarrow>
               if \<not> truthy chat_id then ([], None)
               else
                 (case text of
                    JStr s \<Rightarrow>
                      if startswith s ''/start'' \<or> startswith s ''/help'' then
                        (send_message chat_id (JStr MSG_GREETING), None)
                      else rag_logic env chat_id s
                  | JNull \<Rightarrow> ([], Some AttributeError)
                  | JBool b \<Rightarrow> ([], Some AttributeError)
                  | JInt n \<Rightarrow> ([], Some AttributeError)
                  | JArr xs \<Rightarrow> ([], Some AttributeError)
                  | JObj kvs \<Rightarrow> ([], Some AttributeError))))"

text \<open>
  The messages that \<^verbatim>\<open>handle_text_message\<close> takes as a free-text question: lines 69-79
  find the chat identifier \<open>chat_id\<close> and it is true, and the text is the string
  \<open>text\<close>, which line 82 does not take as a command.
\<close>

definition free_text_question :: "json \<Rightarrow> json \<Rightarrow> string \<Rightarrow> bool" where
  "free_text_question message chat_id text =
     (chat_id_of message = Inr chat_id \<and> truthy chat_id \<and>
      py_get message ''text'' (JStr []) = Inr (JStr text) \<and>
      \<not> startswith text ''/start'' \<and> \<not> startswith text ''/help'')"

section \<open>The polling loop\<close>

text \<open>
  A task created by the loop: the coroutine and its argument. The loop creates tasks and never
  awaits them; what a task does when it runs is \<open>run_task\<close>.
\<close>

datatype task =
    TextTask json
  | CallbackTask json

definition run_task :: "'v env \<Rightarrow> task \<Rightarrow> 'v outcome" where
  "run_task env t =
     (case t of
        TextTask message \<Rightarrow> handle_text_message env message
      | CallbackTask message \<Rightarrow> handle_callback_query message)"

text \<open>
  The body of the \<^verbatim>\<open>for\<close> loop, lines 181-194, on one update: the new offset, and either
  the exception raised or the tasks created. The offset is assigned at line 186, so an
  exception raised later in the body leaves the new value in place.
\<close>

definition loop_body :: "int \<Rightarrow> json \<Rightarrow> int \<times> (error + task list)" where
  "loop_body offset update =
     (case py_get update ''update_id'' (JInt 0) of
        Inl e \<Rightarrow> (offset, Inl e)
      | Inr update_id \<Rightarrow>
          (case py_add_one update_id of
             Inl e \<Rightarrow> (offset, Inl e)
           | Inr next_id \<Rightarrow>
               (let offset' = max offset next_id in
                case py_get update ''message'' update of
                  Inl e \<Rightarrow> (offset', Inl e)
                | Inr message \<Rightarrow>
                    (case py_contains message ''text'' of
                       Inl e \<Rightarrow> (offset', Inl e)
                     | Inr True \<Rightarrow> (offset', Inr [TextTask message])
                     | Inr False \<Rightarrow>
                         (case py_contains message ''callback_data'' of
                            Inl e \<Rightarrow> (offset', Inl e)
                          | Inr True \<Rightarrow> (offset', Inr [CallbackTask message])
                          | Inr False \<Rightarrow> (offset', Inr []))))))"

text \<open>
  The \<^verbatim>\<open>for\<close> loop over a batch, lines 180-194: the offset after the loop, the tasks
  created in order, and the exception that cut the loop short, if any.
\<close>

fun for_updates :: "int \<Rightarrow> json list \<Rightarrow> int \<times> task list \<times> error option" where
  "for_updates offset [] = (offset, [], None)"
| "for_updates offset (update # rest) =
     (case loop_body offset update of
        (offset', Inl e) \<Rightarrow> (offset', [], Some e)
      | (offset', Inr created) \<Rightarrow>
          (case for_updates offset' rest of
             (offset'', tasks, err) \<Rightarrow> (offset'', created @ tasks, err)))"

text \<open>
  The updates of a batch that the \<^verbatim>\<open>for\<close> loop reaches: the loop goes through the
  batch in order and an exception in its body ends it, so these are the updates up to and
  including the first one whose body raises. Whether the body raises does not depend on the
  offset.
\<close>

fun observed :: "json list \<Rightarrow> json list" where
  "observed [] = []"
| "observed (update # rest) =
     (case snd (loop_body 0 update) of
        Inl e \<Rightarrow> [update]
      | Inr created \<Rightarrow> update # observed rest)"

text \<open>What the loop does, in order.\<close>

datatype poll_action =
    GetUpdates int int
  | Sleep nat
  | CreateTask task
  | LogPollError error

record poll_state =
  offset :: int
  log :: "poll_action list"

text \<open>
  One iteration of \<^verbatim>\<open>while True\<close>, lines 172-198. Its second argument is what
  \<^verbatim>\<open>client.get_updates\<close> does in this iteration: it raises or returns a list of updates.
  The handler of line 196 catches every exception of the iteration, logs it and sleeps.
\<close>

definition poll_iteration :: "poll_state \<Rightarrow> error + json list \<Rightarrow> poll_state" where
  "poll_iteration st result =
     (let l = log st @ [GetUpdates (offset st) 10] in
      case result of
        Inl e \<Rightarrow> st\<lparr>log := l @ [LogPollError e, Sleep 5]\<rparr>
      | Inr updates \<Rightarrow>
          if updates = [] then st\<lparr>log := l @ [Sleep 1]\<rparr>
          else
            (case for_updates (offset st) updates of
               (offset', tasks, None) \<Rightarrow>
                 \<lparr>offset = offset', log = l @ map CreateTask tasks\<rparr>
             | (offset', tasks, Some e) \<Rightarrow>
                 \<lparr>offset = offset', log = l @ map CreateTask tasks @ [LogPollError e, Sleep 5]\<rparr>))"

text \<open>
  The loop never ends by itself; it is run here over the results of its first polls, one
  iteration for each.
\<close>

fun main_loop :: "poll_state \<Rightarrow> (error + json list) list \<Rightarrow> poll_state" where
  "main_loop st [] = st"
| "main_loop st (result # results) = main_loop (poll_iteration st result) results"

text \<open>
  \<^verbatim>\<open>main\<close>, lines 150-198: when the connection test fails the function returns before
  the loop (\<open>None\<close>); otherwise the loop starts at offset 0.
\<close>

definition main :: "bool \<Rightarrow> (error + json list) list \<Rightarrow> poll_state option" where
  "main connected results =
     (if \<not> connected then None else Some (main_loop \<lparr>offset = 0, log = []\<rparr> results))"

text \<open>The polls of a log: the offset each request was made with.\<close>

fun polled_offsets :: "poll_action list \<Rightarrow> int list" where
  "polled_offsets [] = []"
| "polled_offsets (GetUpdates off lim # as) = off # polled_offsets as"
| "polled_offsets (Sleep n # as) = polled_offsets as"
| "polled_offsets (CreateTask t # as) = polled_offsets as"
| "polled_offsets (LogPollError e # as) = polled_offsets as"


section \<open>The scenarios of the specification\<close>

text \<open>
  The inputs of the scenarios in section 8 of the specification, with the stub services they
  name. Vectors are lists of integers here; the stub embedding is \<open>[1, 2, 3]\<close>.
\<close>

definition help_message :: json where
  "help_message = JObj [(''chat'', JObj [(''chat_id'', JStr ''u1'')]), (''text'', JStr ''/help'')]"

definition help_update :: json where
  "help_update = JObj [(''update_id'', JInt 5), (''message'', help_message)]"

definition leave_message :: json where
  "leave_message =
     JObj [(''chat'', JObj [(''chat_id'', JStr ''u2'')]),
           (''text'', JStr ''What is the leave policy?'')]"

definition leave_hit :: json where
  "leave_hit = JObj [(''text'', JStr ''Leave policy: 20 days''), (''source_file'', JStr ''hr.pdf'')]"

definition stub_response :: response where
  "stub_response =
     \<lparr>status = 200,
      json_result = Inr (JObj [(''answer'', JStr ''20 days of leave per year.'')]),
      text_result = Inr ''{\"answer\": \"20 days of leave per year.\"}''\<rparr>"

definition stub_env :: "int list env" where
  "stub_env =
     \<lparr>openai_client = Some (\<lambda>text. Inr [[1, 2, 3]]),
      qdrant_search = (\<lambda>v. Inr [leave_hit]),
      session_post = (\<lambda>payload. Inr stub_response)\<rparr>"

text \<open>A message of a private chat, which carries the sender instead of a chat identifier.\<close>

definition private_message :: json where
  "private_message =
     JObj [(''chat'', JObj [(''type'', JStr ''private'')]),
           (''from'', JObj [(''login'', JStr ''u3'')]),
           (''text'', JStr ''xyz'')]"

text \<open>
  A button press in a group chat: the message names its chat and has no sender login.
\<close>

definition group_button_message :: json where
  "group_button_message =
     JObj [(''chat'', JObj [(''chat_id'', JStr ''c1''), (''type'', JStr ''group'')]),
           (''callback_data'', JStr ''more'')]"

text \<open>
  A button press in a group chat that names its sender and no chat identifier.
\<close>

definition sender_button_message :: json where
  "sender_button_message =
     JObj [(''chat'', JObj [(''type'', JStr ''group'')]),
           (''from'', JObj [(''login'', JStr ''u4'')]),
           (''callback_data'', JStr ''more'')]"

text \<open>
  A button press in a group chat that names both the chat and the sender.
\<close>

definition member_button_message :: json where
  "member_button_message =
     JObj [(''chat'', JObj [(''chat_id'', JStr ''c1''), (''type'', JStr ''group'')]),
           (''from'', JObj [(''login'', JStr ''u4'')]),
           (''callback_data'', JStr ''more'')]"

text \<open>A command typed in a group chat whose message carries no chat identifier.\<close>

definition group_text_message :: json where
  "group_text_message =
     JObj [(''chat'', JObj [(''type'', JStr ''group'')]),
           (''from'', JObj [(''login'', JStr ''u5'')]),
           (''text'', JStr ''/start'')]"

text \<open>The stub services with a generation service that answers with the given response.\<close>

definition respond_with :: "response \<Rightarrow> int list env" where
  "respond_with r = stub_env\<lparr>session_post := (\<lambda>payload. Inr r)\<rparr>"

section \<open>The cursor of the polling loop\<close>

lemma loop_body_offset: "off \<le> fst (loop_body off update)"
  by (simp add: loop_body_def Let_def split: sum.split bool.split)

lemma for_updates_offset: "off \<le> fst (for_updates off updates)"
proof (induction updates arbitrary: off)
  case Nil
  show ?case by simp
next
  case (Cons u us)
  obtain off1 r where lb: "loop_body off u = (off1, r)" by (cases "loop_body off u")
  have le1: "off \<le> off1" using loop_body_offset [of off u] lb by simp
  show ?case
  proof (cases r)
    case (Inl e)
    then show ?thesis using lb le1 by simp
  next
    case (Inr created)
    obtain off2 ts err where fu: "for_updates off1 us = (off2, ts, err)"
      by (cases "for_updates off1 us")
    have "off1 \<le> fst (for_updates off1 us)" by (rule Cons.IH)
    then show ?thesis using lb le1 Inr fu by simp
  qed
qed

lemma poll_iteration_batch:
  "updates \<noteq> [] \<Longrightarrow>
   offset (poll_iteration st (Inr updates)) = fst (for_updates (offset st) updates)"
proof -
  assume ne: "updates \<noteq> []"
  obtain off2 ts err where fu: "for_updates (offset st) updates = (off2, ts, err)"
    by (cases "for_updates (offset st) updates")
  show ?thesis using ne fu
    by (cases err) (simp_all add: poll_iteration_def Let_def)
qed

lemma poll_iteration_offset: "offset st \<le> offset (poll_iteration st result)"
proof (cases result)
  case (Inl e)
  then show ?thesis by (simp add: poll_iteration_def Let_def)
next
  case (Inr updates)
  show ?thesis
  proof (cases "updates = []")
    case True
    then show ?thesis using Inr by (simp add: poll_iteration_def Let_def)
  next
    case False
    then show ?thesis
      using Inr for_updates_offset [of "offset st" updates] by (simp add: poll_iteration_batch)
  qed
qed

lemma main_loop_offset: "offset st \<le> offset (main_loop st results)"
proof (induction results arbitrary: st)
  case Nil
  show ?case by simp
next
  case (Cons r rs)
  have "offset st \<le> offset (poll_iteration st r)" by (rule poll_iteration_offset)
  also have "\<dots> \<le> offset (main_loop (poll_iteration st r) rs)" by (rule Cons.IH)
  finally show ?case by simp
qed

lemma loop_body_advance:
  "py_get update ''update_id'' (JInt 0) = Inr (JInt n) \<Longrightarrow>
   fst (loop_body off update) = max off (n + 1)"
  by (simp add: loop_body_def Let_def split: sum.split bool.split)

lemma for_updates_advance:
  "list_all2 (\<lambda>u n. py_get u ''update_id'' (JInt 0) = Inr (JInt n)) updates ids \<Longrightarrow>
   snd (snd (for_updates off updates)) = None \<Longrightarrow>
   fst (for_updates off updates) = foldl (\<lambda>c n. max c (n + 1)) off ids"
proof (induction updates ids arbitrary: off rule: list_all2_induct)
  case Nil
  show ?case by simp
next
  case (Cons u us n ns)
  obtain off1 r where lb: "loop_body off u = (off1, r)" by (cases "loop_body off u")
  have off1: "off1 = max off (n + 1)" using loop_body_advance [OF Cons.hyps(1), of off] lb by simp
  show ?case
  proof (cases r)
    case (Inl e)
    then show ?thesis using Cons.prems lb by simp
  next
    case (Inr created)
    obtain off2 ts err where fu: "for_updates off1 us = (off2, ts, err)"
      by (cases "for_updates off1 us")
    have "snd (snd (for_updates off1 us)) = None"
      using Cons.prems lb Inr fu by simp
    then have "fst (for_updates off1 us) = foldl (\<lambda>c n. max c (n + 1)) off1 ns"
      by (rule Cons.IH)
    then show ?thesis using lb Inr off1 fu by simp
  qed
qed

lemma loop_body_raises:
  "snd (loop_body off update) = snd (loop_body off' update)"
  by (simp add: loop_body_def Let_def split: sum.split bool.split)

lemma for_updates_observed:
  "fst (for_updates off updates) = foldl (\<lambda>c u. fst (loop_body c u)) off (observed updates)"
proof (induction updates arbitrary: off)
  case Nil
  show ?case by simp
next
  case (Cons u us)
  obtain off1 r where lb: "loop_body off u = (off1, r)" by (cases "loop_body off u")
  have r0: "snd (loop_body 0 u) = r" using loop_body_raises [of 0 u off] lb by simp
  show ?case
  proof (cases r)
    case (Inl e)
    then show ?thesis using lb r0 by simp
  next
    case (Inr created)
    obtain off2 ts err where fu: "for_updates off1 us = (off2, ts, err)"
      by (cases "for_updates off1 us")
    have "fst (for_updates off1 us) =
        foldl (\<lambda>c u. fst (loop_body c u)) off1 (observed us)"
      by (rule Cons.IH)
    then show ?thesis using lb r0 Inr fu by simp
  qed
qed

lemma for_updates_all_observed:
  "snd (snd (for_updates off updates)) = None \<Longrightarrow> observed updates = updates"
proof (induction updates arbitrary: off)
  case Nil
  show ?case by simp
next
  case (Cons u us)
  obtain off1 r where lb: "loop_body off u = (off1, r)" by (cases "loop_body off u")
  have r0: "snd (loop_body 0 u) = r" using loop_body_raises [of 0 u off] lb by simp
  show ?case
  proof (cases r)
    case (Inl e)
    then show ?thesis using Cons.prems lb by simp
  next
    case (Inr created)
    obtain off2 ts err where fu: "for_updates off1 us = (off2, ts, err)"
      by (cases "for_updates off1 us")
    have "snd (snd (for_updates off1 us)) = None" using Cons.prems lb Inr fu by simp
    then have "observed us = us" by (rule Cons.IH)
    then show ?thesis using r0 Inr by simp
  qed
qed

lemma poll_iteration_observed:
  "offset (poll_iteration st (Inr updates)) =
   foldl (\<lambda>c u. fst (loop_body c u)) (offset st) (observed updates)"
proof (cases "updates = []")
  case True
  then show ?thesis by (simp add: poll_iteration_def Let_def)
next
  case False
  then show ?thesis by (simp add: poll_iteration_batch for_updates_observed)
qed

lemma observed_advance:
  "list_all2 (\<lambda>u n. py_get u ''update_id'' (JInt 0) = Inr (JInt n)) updates ids \<Longrightarrow>
   foldl (\<lambda>c u. fst (loop_body c u)) off (observed updates) =
   foldl (\<lambda>c n. max c (n + 1)) off (take (length (observed updates)) ids)"
proof (induction updates ids arbitrary: off rule: list_all2_induct)
  case Nil
  show ?case by simp
next
  case (Cons u us n ns)
  have a: "fst (loop_body off u) = max off (n + 1)"
    by (rule loop_body_advance [OF Cons.hyps(1)])
  show ?case
  proof (cases "snd (loop_body 0 u)")
    case (Inl e)
    then show ?thesis using a by simp
  next
    case (Inr created)
    then show ?thesis using a Cons.IH [of "max off (n + 1)"] by simp
  qed
qed

lemma main_loop_cursor:
  "offset (main_loop st results) =
   foldl (\<lambda>c r. case r of
            Inl e \<Rightarrow> c
          | Inr updates \<Rightarrow> foldl (\<lambda>c u. fst (loop_body c u)) c (observed updates))
     (offset st) results"
proof (induction results arbitrary: st)
  case Nil
  show ?case by simp
next
  case (Cons r rs)
  show ?case
  proof (cases r)
    case (Inl e)
    have "offset (poll_iteration st (Inl e)) = offset st"
      by (simp add: poll_iteration_def Let_def)
    then show ?thesis using Inl Cons.IH [of "poll_iteration st (Inl e)"] by simp
  next
    case (Inr updates)
    then show ?thesis
      using Cons.IH [of "poll_iteration st (Inr updates)"]
      by (simp add: poll_iteration_observed)
  qed
qed

text \<open>
  Claim C1. The offset of the polling loop never decreases, whatever the polls return or raise.
  An update whose \<^verbatim>\<open>update_id\<close> is the integer \<open>n\<close> (0 when the field is absent) moves
  the offset to \<open>max offset (n + 1)\<close> at line 186, before the message is looked at: whatever
  the shape of the message, also when the dispatch that follows raises, and before any task
  created for it has run. The offset after an iteration is the offset before it, advanced in
  turn by every update that the \<^verbatim>\<open>for\<close> loop reached, the one whose body raised
  included: for updates with integer identifiers that is the maximum of the old offset and of
  each observed identifier plus one, in whatever order the identifiers arrive. A batch that
  raises nothing is observed in full. The offset after any number of iterations is obtained in
  the same way from the offset at the start, a failed poll leaving it as it is.
\<close>

theorem cursor_non_decreasing:
  "offset st \<le> offset (main_loop st results) \<and>
   (py_get update ''update_id'' (JInt 0) = Inr (JInt n) \<longrightarrow>
      fst (loop_body off update) = max off (n + 1)) \<and>
   offset (poll_iteration st (Inr updates)) =
     foldl (\<lambda>c u. fst (loop_body c u)) (offset st) (observed updates) \<and>
   (list_all2 (\<lambda>u n. py_get u ''update_id'' (JInt 0) = Inr (JInt n)) updates ids \<longrightarrow>
      offset (poll_iteration st (Inr updates)) =
        foldl (\<lambda>c n. max c (n + 1)) (offset st) (take (length (observed updates)) ids)) \<and>
   (snd (snd (for_updates (offset st) updates)) = None \<longrightarrow> observed updates = updates) \<and>
   (list_all2 (\<lambda>u n. py_get u ''update_id'' (JInt 0) = Inr (JInt n)) updates ids \<and>
    snd (snd (for_updates (offset st) updates)) = None \<longrightarrow>
      offset (poll_iteration st (Inr updates)) =
        foldl (\<lambda>c n. max c (n + 1)) (offset st) ids) \<and>
   offset (main_loop st results) =
     foldl (\<lambda>c r. case r of
              Inl e \<Rightarrow> c
            | Inr updates \<Rightarrow> foldl (\<lambda>c u. fst (loop_body c u)) c (observed updates))
       (offset st) results"
proof (intro conjI impI)
  show "offset st \<le> offset (main_loop st results)" by (rule main_loop_offset)
next
  assume "py_get update ''update_id'' (JInt 0) = Inr (JInt n)"
  then show "fst (loop_body off update) = max off (n + 1)" by (rule loop_body_advance)
next
  show "offset (poll_iteration st (Inr updates)) =
     foldl (\<lambda>c u. fst (loop_body c u)) (offset st) (observed updates)"
    by (rule poll_iteration_observed)
next
  assume "list_all2 (\<lambda>u n. py_get u ''update_id'' (JInt 0) = Inr (JInt n)) updates ids"
  then show "offset (poll_iteration st (Inr updates)) =
        foldl (\<lambda>c n. max c (n + 1)) (offset st) (take (length (observed updates)) ids)"
    by (simp add: poll_iteration_observed observed_advance)
next
  assume "snd (snd (for_updates (offset st) updates)) = None"
  then show "observed updates = updates" by (rule for_updates_all_observed)
next
  assume h: "list_all2 (\<lambda>u n. py_get u ''update_id'' (JInt 0) = Inr (JInt n)) updates ids \<and>
    snd (snd (for_updates (offset st) updates)) = None"
  show "offset (poll_iteration st (Inr updates)) =
        foldl (\<lambda>c n. max c (n + 1)) (offset st) ids"
  proof (cases "updates = []")
    case True
    then show ?thesis using h by (simp add: poll_iteration_def Let_def)
  next
    case False
    then show ?thesis using h for_updates_advance [of updates ids "offset st"]
      by (simp add: poll_iteration_batch)
  qed
next
  show "offset (main_loop st results) =
     foldl (\<lambda>c r. case r of
              Inl e \<Rightarrow> c
            | Inr updates \<Rightarrow> foldl (\<lambda>c u. fst (loop_body c u)) c (observed updates))
       (offset st) results"
    by (rule main_loop_cursor)
qed

text \<open>
  The theorem at work. A batch with the identifiers 5 and 3, in this order, takes the offset
  from 0 to 6. An update with identifier 7 whose message is \<^verbatim>\<open>null\<close> takes the offset
  from 2 to 8 although its dispatch raises. In a batch with the identifiers 1, 2 and 9 whose
  second message is \<^verbatim>\<open>null\<close>, the loop observes the first two updates and leaves the
  offset at 3. Three polls, the second of which fails, take the offset from 0 to 6 and leave
  it there.
\<close>

theorem cursor_non_decreasing_witness:
  "offset (poll_iteration \<lparr>offset = 0, log = []\<rparr>
      (Inr [help_update, JObj [(''update_id'', JInt 3), (''sticker'', JNull)]])) = 6 \<and>
   loop_body 2 (JObj [(''update_id'', JInt 7), (''message'', JNull)]) = (8, Inl TypeError) \<and>
   observed [JObj [(''update_id'', JInt 1), (''sticker'', JNull)],
             JObj [(''update_id'', JInt 2), (''message'', JNull)],
             JObj [(''update_id'', JInt 9), (''sticker'', JNull)]] =
     [JObj [(''update_id'', JInt 1), (''sticker'', JNull)],
      JObj [(''update_id'', JInt 2), (''message'', JNull)]] \<and>
   offset (poll_iteration \<lparr>offset = 0, log = []\<rparr>
      (Inr [JObj [(''update_id'', JInt 1), (''sticker'', JNull)],
            JObj [(''update_id'', JInt 2), (''message'', JNull)],
            JObj [(''update_id'', JInt 9), (''sticker'', JNull)]])) = 3 \<and>
   offset (main_loop \<lparr>offset = 0, log = []\<rparr>
      [Inr [help_update], Inl (OtherException ''timeout''),
       Inr [JObj [(''update_id'', JInt 3), (''sticker'', JNull)]]]) = 6"
  using cursor_non_decreasing
    [where st = "\<lparr>offset = 0, log = []\<rparr>"
       and results = "[Inr [help_update], Inl (OtherException ''timeout''),
                       Inr [JObj [(''update_id'', JInt 3), (''sticker'', JNull)]]]"
       and update = "JObj [(''update_id'', JInt 7), (''message'', JNull)]"
       and n = 7 and off = 2
       and updates = "[help_update, JObj [(''update_id'', JInt 3), (''sticker'', JNull)]]"
       and ids = "[5, 3]"]
    cursor_non_decreasing
    [where st = "\<lparr>offset = 0, log = []\<rparr>"
       and updates = "[JObj [(''update_id'', JInt 1), (''sticker'', JNull)],
                       JObj [(''update_id'', JInt 2), (''message'', JNull)],
                       JObj [(''update_id'', JInt 9), (''sticker'', JNull)]]"
       and ids = "[1, 2, 9]"]
  by (simp add: help_update_def help_message_def loop_body_def)

section \<open>Failures and dispatch in the polling loop\<close>

lemma polled_offsets_append:
  "polled_offsets (xs @ ys) = polled_offsets xs @ polled_offsets ys"
  by (induction xs rule: polled_offsets.induct) simp_all

lemma polled_offsets_tasks: "polled_offsets (map CreateTask ts) = []"
  by (induction ts) simp_all

lemma poll_iteration_polls:
  "polled_offsets (log (poll_iteration st result)) = polled_offsets (log st) @ [offset st]"
proof (cases result)
  case (Inl e)
  then show ?thesis by (simp add: poll_iteration_def Let_def polled_offsets_append)
next
  case (Inr updates)
  obtain off2 ts err where fu: "for_updates (offset st) updates = (off2, ts, err)"
    by (cases "for_updates (offset st) updates")
  show ?thesis using Inr fu
    by (cases err)
      (simp_all add: poll_iteration_def Let_def polled_offsets_append polled_offsets_tasks)
qed

lemma main_loop_polls:
  "length (polled_offsets (log (main_loop st results))) =
   length (polled_offsets (log st)) + length results"
  by (induction results arbitrary: st) (simp_all add: poll_iteration_polls)

lemma main_loop_append:
  "main_loop st (xs @ ys) = main_loop (main_loop st xs) ys"
  by (induction xs arbitrary: st) simp_all

lemma poll_iteration_failed:
  "poll_iteration st (Inl e) =
     st\<lparr>log := log st @ [GetUpdates (offset st) 10, LogPollError e, Sleep 5]\<rparr>"
  by (simp add: poll_iteration_def Let_def)

lemma poll_iteration_raised:
  "for_updates (offset st) updates = (off', tasks, Some e) \<Longrightarrow>
   poll_iteration st (Inr updates) =
     \<lparr>offset = off',
      log = log st @ [GetUpdates (offset st) 10] @ map CreateTask tasks @
            [LogPollError e, Sleep 5]\<rparr>"
proof -
  assume fu: "for_updates (offset st) updates = (off', tasks, Some e)"
  then have "updates \<noteq> []" by auto
  then show ?thesis using fu by (simp add: poll_iteration_def Let_def)
qed

lemma poll_iteration_log:
  "\<exists>rest. log (poll_iteration st result) = log st @ GetUpdates (offset st) 10 # rest"
proof (cases result)
  case (Inl e)
  then show ?thesis by (simp add: poll_iteration_def Let_def)
next
  case (Inr updates)
  obtain off2 ts err where fu: "for_updates (offset st) updates = (off2, ts, err)"
    by (cases "for_updates (offset st) updates")
  show ?thesis using Inr fu
    by (cases err) (simp_all add: poll_iteration_def Let_def)
qed

lemma main_loop_log: "\<exists>rest. log (main_loop st results) = log st @ rest"
proof (induction results arbitrary: st)
  case Nil
  show ?case by simp
next
  case (Cons r rs)
  obtain rest1 where a: "log (poll_iteration st r) = log st @ GetUpdates (offset st) 10 # rest1"
    using poll_iteration_log [of st r] by auto
  obtain rest2 where "log (main_loop (poll_iteration st r) rs) = log (poll_iteration st r) @ rest2"
    using Cons.IH [of "poll_iteration st r"] by auto
  then show ?case using a by simp
qed

lemma main_loop_next_poll:
  "\<exists>rest. log (main_loop st (r # post)) = log st @ GetUpdates (offset st) 10 # rest"
proof -
  obtain rest1 where a: "log (poll_iteration st r) = log st @ GetUpdates (offset st) 10 # rest1"
    using poll_iteration_log [of st r] by auto
  obtain rest2 where "log (main_loop (poll_iteration st r) post) = log (poll_iteration st r) @ rest2"
    using main_loop_log [of "poll_iteration st r" post] by auto
  then show ?thesis using a by simp
qed

text \<open>
  Claim C8. When \<^verbatim>\<open>get_updates\<close> raises, the iteration keeps the offset, logs the
  exception and sleeps 5 seconds (lines 196-198), and the iteration after it polls again with
  the same offset. This holds of the loop after any number of earlier polls: a failed poll adds
  the request, the error line and the sleep to the log and leaves the offset as it was, and
  when the loop goes on to a further poll, that poll is made with the same offset. An exception
  raised while a batch is handled is caught in the same way: the tasks created before it stay
  created, the exception is logged, the loop sleeps 5 seconds and polls again, with the offset
  the batch has reached. No exception ends the loop: each iteration polls with the offset that
  the iterations before it left, and the loop makes one poll for each result, failed or not.
\<close>

theorem poll_failure_keeps_cursor:
  "poll_iteration st (Inl e) =
     st\<lparr>log := log st @ [GetUpdates (offset st) 10, LogPollError e, Sleep 5]\<rparr> \<and>
   offset (poll_iteration st (Inl e)) = offset st \<and>
   polled_offsets (log (poll_iteration (poll_iteration st (Inl e)) result)) =
     polled_offsets (log st) @ [offset st, offset st] \<and>
   length (polled_offsets (log (main_loop st results))) =
     length (polled_offsets (log st)) + length results \<and>
   main_loop st (pre @ [Inl e]) =
     (main_loop st pre)\<lparr>log := log (main_loop st pre) @
        [GetUpdates (offset (main_loop st pre)) 10, LogPollError e, Sleep 5]\<rparr> \<and>
   (\<exists>rest. log (main_loop st (pre @ Inl e # result # post)) =
      log (main_loop st pre) @
      [GetUpdates (offset (main_loop st pre)) 10, LogPollError e, Sleep 5,
       GetUpdates (offset (main_loop st pre)) 10] @ rest) \<and>
   (for_updates (offset (main_loop st pre)) updates = (off', tasks, Some e') \<longrightarrow>
      (\<exists>rest. log (main_loop st (pre @ Inr updates # result # post)) =
         log (main_loop st pre) @ [GetUpdates (offset (main_loop st pre)) 10] @
         map CreateTask tasks @ [LogPollError e', Sleep 5, GetUpdates off' 10] @ rest)) \<and>
   polled_offsets (log (main_loop st (pre @ [result]))) =
     polled_offsets (log (main_loop st pre)) @ [offset (main_loop st pre)]"
proof (intro conjI impI)
  show f: "poll_iteration st (Inl e) =
     st\<lparr>log := log st @ [GetUpdates (offset st) 10, LogPollError e, Sleep 5]\<rparr>"
    by (rule poll_iteration_failed)
  then show "offset (poll_iteration st (Inl e)) = offset st" by simp
  then show "polled_offsets (log (poll_iteration (poll_iteration st (Inl e)) result)) =
     polled_offsets (log st) @ [offset st, offset st]"
    by (simp add: poll_iteration_polls)
  show "length (polled_offsets (log (main_loop st results))) =
     length (polled_offsets (log st)) + length results"
    by (rule main_loop_polls)
  show "main_loop st (pre @ [Inl e]) =
     (main_loop st pre)\<lparr>log := log (main_loop st pre) @
        [GetUpdates (offset (main_loop st pre)) 10, LogPollError e, Sleep 5]\<rparr>"
    by (simp add: main_loop_append poll_iteration_failed)
  show "\<exists>rest. log (main_loop st (pre @ Inl e # result # post)) =
      log (main_loop st pre) @
      [GetUpdates (offset (main_loop st pre)) 10, LogPollError e, Sleep 5,
       GetUpdates (offset (main_loop st pre)) 10] @ rest"
  proof -
    define s where "s = main_loop st pre"
    define s1 where "s1 = poll_iteration s (Inl e)"
    have l1: "log s1 = log s @ [GetUpdates (offset s) 10, LogPollError e, Sleep 5]"
      and o1: "offset s1 = offset s"
      by (simp_all add: s1_def poll_iteration_failed)
    obtain rest where "log (main_loop s1 (result # post)) =
        log s1 @ GetUpdates (offset s1) 10 # rest"
      using main_loop_next_poll [of s1 result post] by auto
    then have "log (main_loop st (pre @ Inl e # result # post)) =
        log s @ [GetUpdates (offset s) 10, LogPollError e, Sleep 5, GetUpdates (offset s) 10]
          @ rest"
      using l1 o1 by (simp add: main_loop_append s_def s1_def)
    then show ?thesis unfolding s_def by blast
  qed
  show "polled_offsets (log (main_loop st (pre @ [result]))) =
     polled_offsets (log (main_loop st pre)) @ [offset (main_loop st pre)]"
    by (simp add: main_loop_append poll_iteration_polls)
next
  assume fu: "for_updates (offset (main_loop st pre)) updates = (off', tasks, Some e')"
  define s where "s = main_loop st pre"
  define s1 where "s1 = poll_iteration s (Inr updates)"
  have "s1 = \<lparr>offset = off',
      log = log s @ [GetUpdates (offset s) 10] @ map CreateTask tasks @
            [LogPollError e', Sleep 5]\<rparr>"
    using fu unfolding s1_def s_def by (rule poll_iteration_raised)
  then have l1: "log s1 = log s @ [GetUpdates (offset s) 10] @ map CreateTask tasks @
            [LogPollError e', Sleep 5]"
    and o1: "offset s1 = off'"
    by simp_all
  obtain rest where "log (main_loop s1 (result # post)) =
      log s1 @ GetUpdates (offset s1) 10 # rest"
    using main_loop_next_poll [of s1 result post] by auto
  then have "log (main_loop st (pre @ Inr updates # result # post)) =
      log s @ [GetUpdates (offset s) 10] @ map CreateTask tasks @
      [LogPollError e', Sleep 5, GetUpdates off' 10] @ rest"
    using l1 o1 by (simp add: main_loop_append s_def s1_def)
  then show "\<exists>rest. log (main_loop st (pre @ Inr updates # result # post)) =
         log (main_loop st pre) @ [GetUpdates (offset (main_loop st pre)) 10] @
         map CreateTask tasks @ [LogPollError e', Sleep 5, GetUpdates off' 10] @ rest"
    unfolding s_def by blast
qed

text \<open>
  The theorem at work. After a first poll that returns the \<^verbatim>\<open>/help\<close> update, a poll
  that times out and a poll that returns nothing give the log below: the failed poll and the
  poll after it are both made with offset 6. A batch of one update with identifier 7 and a
  \<^verbatim>\<open>null\<close> message raises in the loop body; the loop logs it, sleeps and polls again
  with offset 8.
\<close>

theorem poll_failure_keeps_cursor_witness:
  "log (main_loop \<lparr>offset = 0, log = []\<rparr>
      [Inr [help_update], Inl (OtherException ''timeout''), Inr []]) =
     [GetUpdates 0 10, CreateTask (TextTask help_message),
      GetUpdates 6 10, LogPollError (OtherException ''timeout''), Sleep 5,
      GetUpdates 6 10, Sleep 1] \<and>
   for_updates 0 [JObj [(''update_id'', JInt 7), (''message'', JNull)]] =
     (8, [], Some TypeError) \<and>
   main_loop \<lparr>offset = 0, log = []\<rparr>
      [Inr [JObj [(''update_id'', JInt 7), (''message'', JNull)]], Inr []] =
     \<lparr>offset = 8,
      log = [GetUpdates 0 10, LogPollError TypeError, Sleep 5, GetUpdates 8 10, Sleep 1]\<rparr>"
  using poll_failure_keeps_cursor
    [where st = "\<lparr>offset = 0, log = []\<rparr>" and pre = "[Inr [help_update]]"
       and e = "OtherException ''timeout''" and result = "Inr []" and post = "[]"]
    poll_failure_keeps_cursor
    [where st = "\<lparr>offset = 0, log = []\<rparr>" and pre = "[]"
       and updates = "[JObj [(''update_id'', JInt 7), (''message'', JNull)]]"
       and off' = 8 and tasks = "[]" and e' = TypeError
       and result = "Inr []" and post = "[]"]
  by (simp add: poll_iteration_def loop_body_def help_update_def help_message_def)

lemma loop_body_tasks:
  "length (case snd (loop_body off update) of Inl e \<Rightarrow> [] | Inr ts \<Rightarrow> ts) \<le> 1"
  by (simp add: loop_body_def Let_def split: sum.split bool.split)

lemma for_updates_tasks: "length (fst (snd (for_updates off updates))) \<le> length updates"
proof (induction updates arbitrary: off)
  case Nil
  show ?case by simp
next
  case (Cons u us)
  obtain off1 r where lb: "loop_body off u = (off1, r)" by (cases "loop_body off u")
  show ?case
  proof (cases r)
    case (Inl e)
    then show ?thesis using lb by simp
  next
    case (Inr created)
    obtain off2 ts err where fu: "for_updates off1 us = (off2, ts, err)"
      by (cases "for_updates off1 us")
    have "length created \<le> 1" using loop_body_tasks [of off u] lb Inr by simp
    moreover have "length ts \<le> length us" using Cons.IH [of off1] fu by simp
    ultimately show ?thesis using lb Inr fu by simp
  qed
qed

text \<open>
  Claim C10. The loop body creates at most one task for an update, so a batch creates at most
  as many tasks as it has updates. For an update whose identifier the loop accepts: when
  \<^verbatim>\<open>"text" in message\<close> and \<^verbatim>\<open>"callback_data" in message\<close> both hold, the only task
  created is the text handler on that message; when neither holds, no task is created.
\<close>

theorem dispatch_at_most_one_task:
  "length (case snd (loop_body off update) of Inl e \<Rightarrow> [] | Inr ts \<Rightarrow> ts) \<le> 1 \<and>
   length (fst (snd (for_updates off updates))) \<le> length updates \<and>
   (py_get update ''update_id'' (JInt 0) = Inr update_id \<and>
    py_add_one update_id = Inr next_id \<and>
    py_get update ''message'' update = Inr message \<longrightarrow>
      (py_contains message ''text'' = Inr True \<and>
       py_contains message ''callback_data'' = Inr True \<longrightarrow>
         snd (loop_body off update) = Inr [TextTask message]) \<and>
      (py_contains message ''text'' = Inr False \<and>
       py_contains message ''callback_data'' = Inr False \<longrightarrow>
         snd (loop_body off update) = Inr []))"
proof (intro conjI impI)
  show "length (case snd (loop_body off update) of Inl e \<Rightarrow> [] | Inr ts \<Rightarrow> ts) \<le> 1"
    by (rule loop_body_tasks)
  show "length (fst (snd (for_updates off updates))) \<le> length updates"
    by (rule for_updates_tasks)
next
  assume "py_get update ''update_id'' (JInt 0) = Inr update_id \<and>
    py_add_one update_id = Inr next_id \<and> py_get update ''message'' update = Inr message"
    and "py_contains message ''text'' = Inr True \<and>
       py_contains message ''callback_data'' = Inr True"
  then show "snd (loop_body off update) = Inr [TextTask message]"
    by (simp add: loop_body_def Let_def)
next
  assume "py_get update ''update_id'' (JInt 0) = Inr update_id \<and>
    py_add_one update_id = Inr next_id \<and> py_get update ''message'' update = Inr message"
    and "py_contains message ''text'' = Inr False \<and>
       py_contains message ''callback_data'' = Inr False"
  then show "snd (loop_body off update) = Inr []"
    by (simp add: loop_body_def Let_def)
qed

text \<open>
  The theorem at work: an update whose message has both fields creates the text task only, and
  an update that carries a sticker and neither field creates no task.
\<close>

theorem dispatch_at_most_one_task_witness:
  "loop_body 0
     (JObj [(''update_id'', JInt 4),
            (''message'', JObj [(''text'', JStr ''hi''), (''callback_data'', JStr ''more'')])]) =
     (5, Inr [TextTask (JObj [(''text'', JStr ''hi''), (''callback_data'', JStr ''more'')])]) \<and>
   loop_body 0 (JObj [(''update_id'', JInt 3), (''sticker'', JNull)]) = (4, Inr [])"
  using dispatch_at_most_one_task
    [where off = 0 and update_id = "JInt 4" and next_id = 5
       and update = "JObj [(''update_id'', JInt 4),
            (''message'', JObj [(''text'', JStr ''hi''), (''callback_data'', JStr ''more'')])]"
       and message = "JObj [(''text'', JStr ''hi''), (''callback_data'', JStr ''more'')]"]
    dispatch_at_most_one_task
    [where off = 0 and update_id = "JInt 3" and next_id = 4
       and update = "JObj [(''update_id'', JInt 3), (''sticker'', JNull)]"
       and message = "JObj [(''update_id'', JInt 3), (''sticker'', JNull)]"]
  by (simp add: loop_body_def)

section \<open>The text handler and the retrieval pipeline\<close>

lemma outbound_append: "outbound (xs @ ys) = outbound xs @ outbound ys"
  by (induction xs rule: outbound.induct) simp_all

lemma handle_text_message_question:
  "free_text_question message chat_id question \<Longrightarrow>
   handle_text_message env message = rag_logic env chat_id question"
  by (simp add: free_text_question_def handle_text_message_def)

lemma rag_logic_returns: "snd (rag_logic env chat_id question) = None"
  by (simp add: rag_logic_def split: prod.split option.split)

lemma rag_try_sends:
  "case rag_try env chat_id question of
     (t, None) \<Rightarrow>
       \<exists>reply. outbound t = [(chat_id, JStr MSG_SEARCHING), (chat_id, reply)]
   | (t, Some e) \<Rightarrow> outbound t = [(chat_id, JStr MSG_SEARCHING)]"
  by (simp add: rag_try_def send_message_def Let_def outbound_append
      split: option.split sum.split list.split)

lemma rag_try_raised:
  "snd (rag_try env chat_id question) = Some e \<Longrightarrow>
   outbound (fst (rag_try env chat_id question)) = [(chat_id, JStr MSG_SEARCHING)]"
  using rag_try_sends [where env = env and chat_id = chat_id and question = question]
  by (cases "rag_try env chat_id question") simp

lemma rag_try_returned:
  "snd (rag_try env chat_id question) = None \<Longrightarrow>
   \<exists>reply. outbound (fst (rag_try env chat_id question)) =
     [(chat_id, JStr MSG_SEARCHING), (chat_id, reply)]"
  using rag_try_sends [where env = env and chat_id = chat_id and question = question]
  by (cases "rag_try env chat_id question") simp

lemma rag_logic_raised:
  "snd (rag_try env chat_id question) = Some e \<Longrightarrow>
   outbound (fst (rag_logic env chat_id question)) =
     [(chat_id, JStr MSG_SEARCHING), (chat_id, JStr MSG_INTERNAL_ERROR)]"
proof -
  assume r: "snd (rag_try env chat_id question) = Some e"
  obtain t where t: "rag_try env chat_id question = (t, Some e)"
    using r by (cases "rag_try env chat_id question") simp
  have "outbound t = [(chat_id, JStr MSG_SEARCHING)]"
    using rag_try_raised [OF r] t by simp
  then show ?thesis
    using t by (simp add: rag_logic_def send_message_def outbound_append)
qed

lemma rag_logic_two_sends:
  "\<exists>reply. outbound (fst (rag_logic env chat_id question)) =
     [(chat_id, JStr MSG_SEARCHING), (chat_id, reply)]"
proof (cases "snd (rag_try env chat_id question)")
  case None
  obtain t where t: "rag_try env chat_id question = (t, None)"
    using None by (cases "rag_try env chat_id question") simp
  show ?thesis using rag_try_returned [OF None] t by (simp add: rag_logic_def)
next
  case (Some e)
  show ?thesis using rag_logic_raised [OF Some] by simp
qed

lemma rag_logic_not_configured:
  "openai_client env = None \<Longrightarrow>
   rag_logic env chat_id question =
     ([Send chat_id (JStr MSG_SEARCHING), Send chat_id (JStr MSG_NOT_CONFIGURED)], None)"
  by (simp add: rag_logic_def rag_try_def send_message_def)

lemma rag_try_embedding_raises:
  "openai_client env = Some embeddings_create \<Longrightarrow> embeddings_create question = Inl e \<Longrightarrow>
   snd (rag_try env chat_id question) = Some e"
  by (simp add: rag_try_def Let_def)

lemma rag_try_search_raises:
  "openai_client env = Some embeddings_create \<Longrightarrow> embeddings_create question = Inr (v # vs) \<Longrightarrow>
   qdrant_search env v = Inl e \<Longrightarrow> snd (rag_try env chat_id question) = Some e"
  by (simp add: rag_try_def Let_def)

lemma rag_try_no_hits:
  "openai_client env = Some embeddings_create \<Longrightarrow> embeddings_create question = Inr (v # vs) \<Longrightarrow>
   qdrant_search env v = Inr [] \<Longrightarrow>
   rag_try env chat_id question =
     ([Send chat_id (JStr MSG_SEARCHING), EmbeddingsCreate question, QdrantSearch v,
       Send chat_id (JStr MSG_NOT_FOUND)], None)"
  by (simp add: rag_try_def send_message_def Let_def)

lemma rag_try_generate:
  "openai_client env = Some embeddings_create \<Longrightarrow> embeddings_create question = Inr (v # vs) \<Longrightarrow>
   qdrant_search env v = Inr hits \<Longrightarrow> hits \<noteq> [] \<Longrightarrow> build_context hits = Inr entries \<Longrightarrow>
   rag_try env chat_id question =
     (case session_post env (question_payload question entries) of
        Inl e \<Rightarrow>
          ([Send chat_id (JStr MSG_SEARCHING), EmbeddingsCreate question, QdrantSearch v,
            SessionPost (question_payload question entries)], Some e)
      | Inr response \<Rightarrow>
          if status response = 200 then
            (case json_result response of
               Inl e \<Rightarrow>
                 ([Send chat_id (JStr MSG_SEARCHING), EmbeddingsCreate question, QdrantSearch v,
                   SessionPost (question_payload question entries)], Some e)
             | Inr result \<Rightarrow>
                 (case py_get result ''answer'' (JStr MSG_EMPTY_ANSWER) of
                    Inl e \<Rightarrow>
                      ([Send chat_id (JStr MSG_SEARCHING), EmbeddingsCreate question, QdrantSearch v,
                        SessionPost (question_payload question entries)], Some e)
                  | Inr answer \<Rightarrow>
                      ([Send chat_id (JStr MSG_SEARCHING), EmbeddingsCreate question, QdrantSearch v,
                        SessionPost (question_payload question entries), Send chat_id answer],
                       None)))
          else
            (case text_result response of
               Inl e \<Rightarrow>
                 ([Send chat_id (JStr MSG_SEARCHING), EmbeddingsCreate question, QdrantSearch v,
                   SessionPost (question_payload question entries)], Some e)
             | Inr error_text \<Rightarrow>
                 ([Send chat_id (JStr MSG_SEARCHING), EmbeddingsCreate question, QdrantSearch v,
                   SessionPost (question_payload question entries),
                   LogError (RagBotError error_text),
                   Send chat_id (JStr MSG_GENERATION_FAILED)], None)))"
  by (simp add: rag_try_def send_message_def Let_def split: sum.split)

lemma pipeline_calls_append:
  "pipeline_calls (xs @ ys) = pipeline_calls xs @ pipeline_calls ys"
  by (induction xs rule: pipeline_calls.induct) simp_all

lemma rag_try_starts:
  "case rag_try env chat_id question of
     (t, r) \<Rightarrow> \<exists>rest. t = Send chat_id (JStr MSG_SEARCHING) # rest"
  by (simp add: rag_try_def send_message_def Let_def split: option.split sum.split list.split)

lemma rag_logic_starts:
  "\<exists>rest. fst (rag_logic env chat_id question) = Send chat_id (JStr MSG_SEARCHING) # rest"
proof -
  obtain t r where tr: "rag_try env chat_id question = (t, r)"
    by (cases "rag_try env chat_id question")
  obtain rest where "t = Send chat_id (JStr MSG_SEARCHING) # rest"
    using rag_try_starts [where env = env and chat_id = chat_id and question = question] tr
    by auto
  then show ?thesis using tr by (cases r) (simp_all add: rag_logic_def)
qed

lemma rag_try_embeds:
  "openai_client env = Some embeddings_create \<Longrightarrow>
   case rag_try env chat_id question of
     (t, r) \<Rightarrow> \<exists>rest. pipeline_calls t = EmbeddingsCreate question # rest"
  by (simp add: rag_try_def send_message_def Let_def pipeline_calls_append
      split: option.split sum.split list.split)

lemma rag_logic_embeds:
  "openai_client env = Some embeddings_create \<Longrightarrow>
   \<exists>rest. pipeline_calls (fst (rag_logic env chat_id question)) =
     EmbeddingsCreate question # rest"
proof -
  assume c: "openai_client env = Some embeddings_create"
  obtain t r where tr: "rag_try env chat_id question = (t, r)"
    by (cases "rag_try env chat_id question")
  obtain rest where "pipeline_calls t = EmbeddingsCreate question # rest"
    using rag_try_embeds [OF c, where chat_id = chat_id and question = question] tr
    by auto
  then show ?thesis
    using tr by (cases r) (simp_all add: rag_logic_def send_message_def pipeline_calls_append)
qed

text \<open>
  Claim C6. A message with a chat identifier whose text starts with \<^verbatim>\<open>/start\<close> or
  \<^verbatim>\<open>/help\<close> is answered with the greeting, sent to that chat, and nothing else happens:
  no embedding, search or generation call. Every other text is handed to the retrieval
  pipeline, which begins with the acknowledgment and, when the embedding client is configured,
  asks for the embedding of the text.
\<close>

theorem command_greeting:
  "chat_id_of message = Inr chat_id \<and> truthy chat_id \<and>
   py_get message ''text'' (JStr []) = Inr (JStr question) \<longrightarrow>
     (startswith question ''/start'' \<or> startswith question ''/help'' \<longrightarrow>
        handle_text_message env message = ([Send chat_id (JStr MSG_GREETING)], None) \<and>
        pipeline_calls (fst (handle_text_message env message)) = []) \<and>
     (\<not> startswith question ''/start'' \<and> \<not> startswith question ''/help'' \<longrightarrow>
        handle_text_message env message = rag_logic env chat_id question \<and>
        (\<exists>rest. fst (handle_text_message env message) =
           Send chat_id (JStr MSG_SEARCHING) # rest) \<and>
        (openai_client env = Some embeddings_create \<longrightarrow>
           (\<exists>rest. pipeline_calls (fst (handle_text_message env message)) =
              EmbeddingsCreate question # rest)))"
proof (intro impI conjI)
  assume h: "chat_id_of message = Inr chat_id \<and> truthy chat_id \<and>
   py_get message ''text'' (JStr []) = Inr (JStr question)"
  assume c: "startswith question ''/start'' \<or> startswith question ''/help''"
  show g: "handle_text_message env message = ([Send chat_id (JStr MSG_GREETING)], None)"
    using h c by (auto simp: handle_text_message_def send_message_def)
  show "pipeline_calls (fst (handle_text_message env message)) = []"
    by (simp add: g)
next
  assume h: "chat_id_of message = Inr chat_id \<and> truthy chat_id \<and>
   py_get message ''text'' (JStr []) = Inr (JStr question)"
  assume c: "\<not> startswith question ''/start'' \<and> \<not> startswith question ''/help''"
  have q: "free_text_question message chat_id question"
    using h c by (simp add: free_text_question_def)
  show r: "handle_text_message env message = rag_logic env chat_id question"
    by (rule handle_text_message_question [OF q])
  show "\<exists>rest. fst (handle_text_message env message) =
           Send chat_id (JStr MSG_SEARCHING) # rest"
    using rag_logic_starts [where env = env and chat_id = chat_id and question = question]
    by (simp add: r)
  assume "openai_client env = Some embeddings_create"
  then show "\<exists>rest. pipeline_calls (fst (handle_text_message env message)) =
              EmbeddingsCreate question # rest"
    using rag_logic_embeds
      [where env = env and embeddings_create = embeddings_create and chat_id = chat_id
         and question = question]
    by (simp add: r)
qed

text \<open>
  The theorem at work, on two scenarios of the specification: \<^verbatim>\<open>/help\<close> from the chat
  \<^verbatim>\<open>u1\<close> is answered with the greeting alone, and the question about the leave policy
  from \<^verbatim>\<open>u2\<close> goes through the pipeline.
\<close>

theorem command_greeting_witness:
  "handle_text_message stub_env help_message =
     ([Send (JStr ''u1'') (JStr MSG_GREETING)], None) \<and>
   handle_text_message stub_env leave_message =
     ([Send (JStr ''u2'') (JStr MSG_SEARCHING),
       EmbeddingsCreate ''What is the leave policy?'',
       QdrantSearch [1, 2, 3],
       SessionPost (question_payload ''What is the leave policy?''
         [JObj [(''text'', JStr ''Leave policy: 20 days''), (''file'', JStr ''hr.pdf'')]]),
       Send (JStr ''u2'') (JStr ''20 days of leave per year.'')], None)"
  using command_greeting
    [where message = help_message and chat_id = "JStr ''u1''" and question = "''/help''"
       and env = stub_env]
    command_greeting
    [where message = leave_message and chat_id = "JStr ''u2''"
       and question = "''What is the leave policy?''" and env = stub_env
       and embeddings_create = "\<lambda>text. Inr [[1, 2, 3]]"]
  by (simp add: help_message_def leave_message_def chat_id_of_def stub_env_def
      rag_logic_def rag_try_def send_message_def leave_hit_def context_entry_def
      stub_response_def)

text \<open>
  Claim C2. A free-text question with a chat identifier never makes the handler raise. The
  handler sends exactly two messages to that chat: the acknowledgment, then one reply. The
  reply is the not-configured notice when there is no embedding client, and the internal-error
  apology whenever an exception leaves the \<^verbatim>\<open>try\<close> block: when the embedding call raises
  or returns no vector, when the search raises, when the request to the generation service
  raises.
\<close>

theorem retrieval_never_raises:
  "free_text_question message chat_id question \<longrightarrow>
     snd (handle_text_message env message) = None \<and>
     (\<exists>reply. outbound (fst (handle_text_message env message)) =
        [(chat_id, JStr MSG_SEARCHING), (chat_id, reply)]) \<and>
     (openai_client env = None \<longrightarrow>
        outbound (fst (handle_text_message env message)) =
          [(chat_id, JStr MSG_SEARCHING), (chat_id, JStr MSG_NOT_CONFIGURED)]) \<and>
     (snd (rag_try env chat_id question) = Some e \<longrightarrow>
        outbound (fst (handle_text_message env message)) =
          [(chat_id, JStr MSG_SEARCHING), (chat_id, JStr MSG_INTERNAL_ERROR)]) \<and>
     (openai_client env = Some embeddings_create \<and>
      (embeddings_create question = Inl e \<or> embeddings_create question = Inr []) \<longrightarrow>
        outbound (fst (handle_text_message env message)) =
          [(chat_id, JStr MSG_SEARCHING), (chat_id, JStr MSG_INTERNAL_ERROR)]) \<and>
     (openai_client env = Some embeddings_create \<and>
      embeddings_create question = Inr (v # vs) \<and> qdrant_search env v = Inl e \<longrightarrow>
        outbound (fst (handle_text_message env message)) =
          [(chat_id, JStr MSG_SEARCHING), (chat_id, JStr MSG_INTERNAL_ERROR)]) \<and>
     (openai_client env = Some embeddings_create \<and>
      embeddings_create question = Inr (v # vs) \<and> qdrant_search env v = Inr hits \<and>
      hits \<noteq> [] \<and> build_context hits = Inr entries \<and>
      session_post env (question_payload question entries) = Inl e \<longrightarrow>
        outbound (fst (handle_text_message env message)) =
          [(chat_id, JStr MSG_SEARCHING), (chat_id, JStr MSG_INTERNAL_ERROR)])"
proof (intro impI conjI)
  assume q: "free_text_question message chat_id question"
  note r = handle_text_message_question [OF q, of env]
  show "snd (handle_text_message env message) = None"
    by (simp add: r rag_logic_returns)
  show "\<exists>reply. outbound (fst (handle_text_message env message)) =
        [(chat_id, JStr MSG_SEARCHING), (chat_id, reply)]"
    using rag_logic_two_sends [where env = env and chat_id = chat_id and question = question]
    by (simp add: r)
  {
    assume "openai_client env = None"
    then show "outbound (fst (handle_text_message env message)) =
          [(chat_id, JStr MSG_SEARCHING), (chat_id, JStr MSG_NOT_CONFIGURED)]"
      by (simp add: r rag_logic_not_configured)
  }
  {
    assume "snd (rag_try env chat_id question) = Some e"
    then show "outbound (fst (handle_text_message env message)) =
          [(chat_id, JStr MSG_SEARCHING), (chat_id, JStr MSG_INTERNAL_ERROR)]"
      by (simp add: r rag_logic_raised)
  }
  {
    assume "openai_client env = Some embeddings_create \<and>
      (embeddings_create question = Inl e \<or> embeddings_create question = Inr [])"
    then have "\<exists>e'. snd (rag_try env chat_id question) = Some e'"
      by (auto simp: rag_try_def Let_def)
    then show "outbound (fst (handle_text_message env message)) =
          [(chat_id, JStr MSG_SEARCHING), (chat_id, JStr MSG_INTERNAL_ERROR)]"
      by (auto simp: r rag_logic_raised)
  }
  {
    assume "openai_client env = Some embeddings_create \<and>
      embeddings_create question = Inr (v # vs) \<and> qdrant_search env v = Inl e"
    then have "snd (rag_try env chat_id question) = Some e"
      by (simp add: rag_try_search_raises)
    then show "outbound (fst (handle_text_message env message)) =
          [(chat_id, JStr MSG_SEARCHING), (chat_id, JStr MSG_INTERNAL_ERROR)]"
      by (simp add: r rag_logic_raised)
  }
  {
    assume "openai_client env = Some embeddings_create \<and>
      embeddings_create question = Inr (v # vs) \<and> qdrant_search env v = Inr hits \<and>
      hits \<noteq> [] \<and> build_context hits = Inr entries \<and>
      session_post env (question_payload question entries) = Inl e"
    then have "snd (rag_try env chat_id question) = Some e"
      by (simp add: rag_try_generate [where chat_id = chat_id])
    then show "outbound (fst (handle_text_message env message)) =
          [(chat_id, JStr MSG_SEARCHING), (chat_id, JStr MSG_INTERNAL_ERROR)]"
      by (simp add: r rag_logic_raised)
  }
qed

text \<open>
  The theorem at work on the question about the leave policy, with a client that is missing,
  an embedding call that raises, a search that raises and a generation request that raises:
  each time the chat receives the acknowledgment and one reply.
\<close>

theorem retrieval_never_raises_witness:
  "outbound (fst (handle_text_message (stub_env\<lparr>openai_client := None\<rparr>) leave_message)) =
     [(JStr ''u2'', JStr MSG_SEARCHING), (JStr ''u2'', JStr MSG_NOT_CONFIGURED)] \<and>
   outbound (fst (handle_text_message
       (stub_env\<lparr>openai_client := Some (\<lambda>text. Inl (OtherException ''no route''))\<rparr>)
       leave_message)) =
     [(JStr ''u2'', JStr MSG_SEARCHING), (JStr ''u2'', JStr MSG_INTERNAL_ERROR)] \<and>
   outbound (fst (handle_text_message
       (stub_env\<lparr>qdrant_search := (\<lambda>v. Inl (OtherException ''store down''))\<rparr>)
       leave_message)) =
     [(JStr ''u2'', JStr MSG_SEARCHING), (JStr ''u2'', JStr MSG_INTERNAL_ERROR)] \<and>
   outbound (fst (handle_text_message
       (stub_env\<lparr>session_post := (\<lambda>payload. Inl (OtherException ''timeout''))\<rparr>)
       leave_message)) =
     [(JStr ''u2'', JStr MSG_SEARCHING), (JStr ''u2'', JStr MSG_INTERNAL_ERROR)] \<and>
   snd (handle_text_message
       (stub_env\<lparr>session_post := (\<lambda>payload. Inl (OtherException ''timeout''))\<rparr>)
       leave_message) = None"
  using retrieval_never_raises
    [where message = leave_message and chat_id = "JStr ''u2''"
       and question = "''What is the leave policy?''"
       and env = "stub_env\<lparr>openai_client := None\<rparr>"]
    retrieval_never_raises
    [where message = leave_message and chat_id = "JStr ''u2''"
       and question = "''What is the leave policy?''"
       and env = "stub_env\<lparr>openai_client := Some (\<lambda>text. Inl (OtherException ''no route''))\<rparr>"
       and embeddings_create = "\<lambda>text. Inl (OtherException ''no route'')"
       and e = "OtherException ''no route''"]
    retrieval_never_raises
    [where message = leave_message and chat_id = "JStr ''u2''"
       and question = "''What is the leave policy?''"
       and env = "stub_env\<lparr>qdrant_search := (\<lambda>v. Inl (OtherException ''store down''))\<rparr>"
       and embeddings_create = "\<lambda>text. Inr [[1, 2, 3]]" and v = "[1, 2, 3]" and vs = "[]"
       and e = "OtherException ''store down''"]
    retrieval_never_raises
    [where message = leave_message and chat_id = "JStr ''u2''"
       and question = "''What is the leave policy?''"
       and env = "stub_env\<lparr>session_post := (\<lambda>payload. Inl (OtherException ''timeout''))\<rparr>"
       and embeddings_create = "\<lambda>text. Inr [[1, 2, 3]]" and v = "[1, 2, 3]" and vs = "[]"
       and hits = "[leave_hit]"
       and entries = "[JObj [(''text'', JStr ''Leave policy: 20 days''),
                             (''file'', JStr ''hr.pdf'')]]"
       and e = "OtherException ''timeout''"]
  by (simp add: free_text_question_def leave_message_def chat_id_of_def stub_env_def
      leave_hit_def context_entry_def)

text \<open>
  Claim C3. When the search returns no hit, the handler sends the no-information reply of line
  115 to the chat of the question and returns: the trace holds the acknowledgment, the
  embedding call, the search and that reply, so the generation service is not called, nothing is
  logged as an error and no exception is raised.
\<close>

theorem no_hits_reply:
  "free_text_question message chat_id question \<and>
   openai_client env = Some embeddings_create \<and>
   embeddings_create question = Inr (v # vs) \<and> qdrant_search env v = Inr [] \<longrightarrow>
     handle_text_message env message =
       ([Send chat_id (JStr MSG_SEARCHING), EmbeddingsCreate question, QdrantSearch v,
         Send chat_id (JStr MSG_NOT_FOUND)], None) \<and>
     outbound (fst (handle_text_message env message)) =
       [(chat_id, JStr MSG_SEARCHING), (chat_id, JStr MSG_NOT_FOUND)] \<and>
     generation_calls (fst (handle_text_message env message)) = []"
proof (intro impI)
  assume h: "free_text_question message chat_id question \<and>
   openai_client env = Some embeddings_create \<and>
   embeddings_create question = Inr (v # vs) \<and> qdrant_search env v = Inr []"
  have "rag_try env chat_id question =
       ([Send chat_id (JStr MSG_SEARCHING), EmbeddingsCreate question, QdrantSearch v,
         Send chat_id (JStr MSG_NOT_FOUND)], None)"
    using h by (simp add: rag_try_no_hits)
  then have "handle_text_message env message =
       ([Send chat_id (JStr MSG_SEARCHING), EmbeddingsCreate question, QdrantSearch v,
         Send chat_id (JStr MSG_NOT_FOUND)], None)"
    using h handle_text_message_question [of message chat_id question env]
    by (simp add: rag_logic_def)
  then show "handle_text_message env message =
       ([Send chat_id (JStr MSG_SEARCHING), EmbeddingsCreate question, QdrantSearch v,
         Send chat_id (JStr MSG_NOT_FOUND)], None) \<and>
     outbound (fst (handle_text_message env message)) =
       [(chat_id, JStr MSG_SEARCHING), (chat_id, JStr MSG_NOT_FOUND)] \<and>
     generation_calls (fst (handle_text_message env message)) = []"
    by simp
qed

text \<open>
  The theorem at work on the third scenario of the specification: the question \<^verbatim>\<open>xyz\<close>
  from the private chat of \<^verbatim>\<open>u3\<close>, with a search that returns the empty list.
\<close>

theorem no_hits_reply_witness:
  "handle_text_message (stub_env\<lparr>qdrant_search := (\<lambda>v. Inr [])\<rparr>) private_message =
     ([Send (JStr ''u3'') (JStr MSG_SEARCHING), EmbeddingsCreate ''xyz'', QdrantSearch [1, 2, 3],
       Send (JStr ''u3'') (JStr MSG_NOT_FOUND)], None) \<and>
   generation_calls
     (fst (handle_text_message (stub_env\<lparr>qdrant_search := (\<lambda>v. Inr [])\<rparr>) private_message)) =
     []"
  using no_hits_reply
    [where message = private_message and chat_id = "JStr ''u3''" and question = "''xyz''"
       and env = "stub_env\<lparr>qdrant_search := (\<lambda>v. Inr [])\<rparr>"
       and embeddings_create = "\<lambda>text. Inr [[1, 2, 3]]" and v = "[1, 2, 3]" and vs = "[]"]
  by (simp add: free_text_question_def private_message_def chat_id_of_def stub_env_def)

section \<open>The answer of the generation service\<close>

text \<open>
  Claim C4, amended. The handler takes the response of the generation service as a success
  exactly when its status is 200 (line 133), not for every status from 200 to 299. With status
  200 the reply is the answer read from the body. With any other status whose body can be read,
  the reply is the generation-failure notice of line 143, and the body goes to the log and into
  no message. With any other status whose body cannot be read (\<^verbatim>\<open>response.text()\<close>
  raises), the reply is the internal-error apology of line 147. In neither case does the body
  of the response appear in a message.
\<close>

theorem generation_status_200:
  "free_text_question message chat_id question \<and>
   openai_client env = Some embeddings_create \<and>
   embeddings_create question = Inr (v # vs) \<and> qdrant_search env v = Inr hits \<and>
   hits \<noteq> [] \<and> build_context hits = Inr entries \<and>
   session_post env (question_payload question entries) = Inr response \<longrightarrow>
     (status response = 200 \<and> json_result response = Inr result \<and>
      py_get result ''answer'' (JStr MSG_EMPTY_ANSWER) = Inr answer \<longrightarrow>
        outbound (fst (handle_text_message env message)) =
          [(chat_id, JStr MSG_SEARCHING), (chat_id, answer)]) \<and>
     (status response \<noteq> 200 \<and> text_result response = Inr error_text \<longrightarrow>
        handle_text_message env message =
          ([Send chat_id (JStr MSG_SEARCHING), EmbeddingsCreate question, QdrantSearch v,
            SessionPost (question_payload question entries),
            LogError (RagBotError error_text),
            Send chat_id (JStr MSG_GENERATION_FAILED)], None) \<and>
        outbound (fst (handle_text_message env message)) =
          [(chat_id, JStr MSG_SEARCHING), (chat_id, JStr MSG_GENERATION_FAILED)]) \<and>
     (status response \<noteq> 200 \<and> text_result response = Inl e \<longrightarrow>
        outbound (fst (handle_text_message env message)) =
          [(chat_id, JStr MSG_SEARCHING), (chat_id, JStr MSG_INTERNAL_ERROR)])"
proof (intro impI)
  assume h: "free_text_question message chat_id question \<and>
   openai_client env = Some embeddings_create \<and>
   embeddings_create question = Inr (v # vs) \<and> qdrant_search env v = Inr hits \<and>
   hits \<noteq> [] \<and> build_context hits = Inr entries \<and>
   session_post env (question_payload question entries) = Inr response"
  have r: "handle_text_message env message = rag_logic env chat_id question"
    using h handle_text_message_question [of message chat_id question env] by simp
  have g: "rag_try env chat_id question =
     (if status response = 200 then
        (case json_result response of
           Inl e \<Rightarrow>
             ([Send chat_id (JStr MSG_SEARCHING), EmbeddingsCreate question, QdrantSearch v,
               SessionPost (question_payload question entries)], Some e)
         | Inr result \<Rightarrow>
             (case py_get result ''answer'' (JStr MSG_EMPTY_ANSWER) of
                Inl e \<Rightarrow>
                  ([Send chat_id (JStr MSG_SEARCHING), EmbeddingsCreate question, QdrantSearch v,
                    SessionPost (question_payload question entries)], Some e)
              | Inr answer \<Rightarrow>
                  ([Send chat_id (JStr MSG_SEARCHING), EmbeddingsCreate question, QdrantSearch v,
                    SessionPost (question_payload question entries), Send chat_id answer],
                   None)))
      else
        (case text_result response of
           Inl e \<Rightarrow>
             ([Send chat_id (JStr MSG_SEARCHING), EmbeddingsCreate question, QdrantSearch v,
               SessionPost (question_payload question entries)], Some e)
         | Inr error_text \<Rightarrow>
             ([Send chat_id (JStr MSG_SEARCHING), EmbeddingsCreate question, QdrantSearch v,
               SessionPost (question_payload question entries),
               LogError (RagBotError error_text),
               Send chat_id (JStr MSG_GENERATION_FAILED)], None)))"
    using h rag_try_generate
      [where env = env and embeddings_create = embeddings_create and question = question
         and v = v and vs = vs and hits = hits and entries = entries and chat_id = chat_id]
    by simp
  show "(status response = 200 \<and> json_result response = Inr result \<and>
      py_get result ''answer'' (JStr MSG_EMPTY_ANSWER) = Inr answer \<longrightarrow>
        outbound (fst (handle_text_message env message)) =
          [(chat_id, JStr MSG_SEARCHING), (chat_id, answer)]) \<and>
     (status response \<noteq> 200 \<and> text_result response = Inr error_text \<longrightarrow>
        handle_text_message env message =
          ([Send chat_id (JStr MSG_SEARCHING), EmbeddingsCreate question, QdrantSearch v,
            SessionPost (question_payload question entries),
            LogError (RagBotError error_text),
            Send chat_id (JStr MSG_GENERATION_FAILED)], None) \<and>
        outbound (fst (handle_text_message env message)) =
          [(chat_id, JStr MSG_SEARCHING), (chat_id, JStr MSG_GENERATION_FAILED)]) \<and>
     (status response \<noteq> 200 \<and> text_result response = Inl e \<longrightarrow>
        outbound (fst (handle_text_message env message)) =
          [(chat_id, JStr MSG_SEARCHING), (chat_id, JStr MSG_INTERNAL_ERROR)])"
    by (simp add: r g rag_logic_def send_message_def)
qed

text \<open>
  The theorem at work on the question about the leave policy: status 200 delivers the answer,
  status 500 with the body \<^verbatim>\<open>stack trace\<close> delivers the generation-failure notice.
\<close>

theorem generation_status_200_witness:
  "outbound (fst (handle_text_message (respond_with stub_response) leave_message)) =
     [(JStr ''u2'', JStr MSG_SEARCHING), (JStr ''u2'', JStr ''20 days of leave per year.'')] \<and>
   outbound (fst (handle_text_message
       (respond_with \<lparr>status = 500, json_result = Inl (OtherException ''not JSON''),
                      text_result = Inr ''stack trace''\<rparr>) leave_message)) =
     [(JStr ''u2'', JStr MSG_SEARCHING), (JStr ''u2'', JStr MSG_GENERATION_FAILED)]"
  using generation_status_200
    [where message = leave_message and chat_id = "JStr ''u2''"
       and question = "''What is the leave policy?''"
       and env = "respond_with stub_response"
       and embeddings_create = "\<lambda>text. Inr [[1, 2, 3]]" and v = "[1, 2, 3]" and vs = "[]"
       and hits = "[leave_hit]"
       and entries = "[JObj [(''text'', JStr ''Leave policy: 20 days''),
                             (''file'', JStr ''hr.pdf'')]]"
       and response = stub_response
       and result = "JObj [(''answer'', JStr ''20 days of leave per year.'')]"
       and answer = "JStr ''20 days of leave per year.''"]
    generation_status_200
    [where message = leave_message and chat_id = "JStr ''u2''"
       and question = "''What is the leave policy?''"
       and env = "respond_with \<lparr>status = 500, json_result = Inl (OtherException ''not JSON''),
                      text_result = Inr ''stack trace''\<rparr>"
       and embeddings_create = "\<lambda>text. Inr [[1, 2, 3]]" and v = "[1, 2, 3]" and vs = "[]"
       and hits = "[leave_hit]"
       and entries = "[JObj [(''text'', JStr ''Leave policy: 20 days''),
                             (''file'', JStr ''hr.pdf'')]]"
       and response = "\<lparr>status = 500, json_result = Inl (OtherException ''not JSON''),
                      text_result = Inr ''stack trace''\<rparr>"
       and error_text = "''stack trace''"]
  by (simp add: free_text_question_def leave_message_def chat_id_of_def stub_env_def
      respond_with_def leave_hit_def context_entry_def stub_response_def)

text \<open>
  The claim as stated fails twice. A response with status 201, which is a 2xx status, and a
  body that carries an answer is not taken as a success: the chat receives the
  generation-failure notice and not the answer. And a response with status 500, which is not a
  2xx status, whose body cannot be read is not answered with the generation-failure notice: the
  chat receives the internal-error apology.
\<close>

theorem generation_2xx_counterexample:
  "status (stub_response\<lparr>status := 201\<rparr>) = 201 \<and>
   json_result (stub_response\<lparr>status := 201\<rparr>) =
     Inr (JObj [(''answer'', JStr ''20 days of leave per year.'')]) \<and>
   outbound (fst (handle_text_message
       (respond_with (stub_response\<lparr>status := 201\<rparr>)) leave_message)) =
     [(JStr ''u2'', JStr MSG_SEARCHING), (JStr ''u2'', JStr MSG_GENERATION_FAILED)] \<and>
   JStr MSG_GENERATION_FAILED \<noteq> JStr ''20 days of leave per year.'' \<and>
   outbound (fst (handle_text_message
       (respond_with \<lparr>status = 500, json_result = Inl (OtherException ''not JSON''),
                      text_result = Inl (OtherException ''connection reset'')\<rparr>)
       leave_message)) =
     [(JStr ''u2'', JStr MSG_SEARCHING), (JStr ''u2'', JStr MSG_INTERNAL_ERROR)] \<and>
   JStr MSG_INTERNAL_ERROR \<noteq> JStr MSG_GENERATION_FAILED"
  by (simp add: handle_text_message_def rag_logic_def rag_try_def send_message_def
      leave_message_def chat_id_of_def stub_env_def respond_with_def leave_hit_def
      context_entry_def stub_response_def MSG_GENERATION_FAILED_def MSG_INTERNAL_ERROR_def)

text \<open>
  Claim C9, amended. When the generation service answers with status 200 and a JSON object
  that has no \<^verbatim>\<open>answer\<close> field, the handler sends the placeholder of line 135 as the
  reply and returns without an exception. (Status 200 only: see claim C4.)
\<close>

theorem missing_answer_placeholder:
  "free_text_question message chat_id question \<and>
   openai_client env = Some embeddings_create \<and>
   embeddings_create question = Inr (v # vs) \<and> qdrant_search env v = Inr hits \<and>
   hits \<noteq> [] \<and> build_context hits = Inr entries \<and>
   session_post env (question_payload question entries) = Inr response \<and>
   status response = 200 \<and> json_result response = Inr (JObj items) \<and>
   map_of items ''answer'' = None \<longrightarrow>
     handle_text_message env message =
       ([Send chat_id (JStr MSG_SEARCHING), EmbeddingsCreate question, QdrantSearch v,
         SessionPost (question_payload question entries),
         Send chat_id (JStr MSG_EMPTY_ANSWER)], None)"
proof (intro impI)
  assume h: "free_text_question message chat_id question \<and>
   openai_client env = Some embeddings_create \<and>
   embeddings_create question = Inr (v # vs) \<and> qdrant_search env v = Inr hits \<and>
   hits \<noteq> [] \<and> build_context hits = Inr entries \<and>
   session_post env (question_payload question entries) = Inr response \<and>
   status response = 200 \<and> json_result response = Inr (JObj items) \<and>
   map_of items ''answer'' = None"
  have r: "handle_text_message env message = rag_logic env chat_id question"
    using h handle_text_message_question [of message chat_id question env] by simp
  have "rag_try env chat_id question =
       ([Send chat_id (JStr MSG_SEARCHING), EmbeddingsCreate question, QdrantSearch v,
         SessionPost (question_payload question entries),
         Send chat_id (JStr MSG_EMPTY_ANSWER)], None)"
    using h rag_try_generate
      [where env = env and embeddings_create = embeddings_create and question = question
         and v = v and vs = vs and hits = hits and entries = entries and chat_id = chat_id]
    by simp
  then show "handle_text_message env message =
       ([Send chat_id (JStr MSG_SEARCHING), EmbeddingsCreate question, QdrantSearch v,
         SessionPost (question_payload question entries),
         Send chat_id (JStr MSG_EMPTY_ANSWER)], None)"
    by (simp add: r rag_logic_def)
qed

text \<open>The theorem at work: status 200 with the body \<^verbatim>\<open>{"id": 17}\<close>.\<close>

theorem missing_answer_placeholder_witness:
  "handle_text_message
     (respond_with \<lparr>status = 200, json_result = Inr (JObj [(''id'', JInt 17)]),
                    text_result = Inr ''{}''\<rparr>) leave_message =
     ([Send (JStr ''u2'') (JStr MSG_SEARCHING), EmbeddingsCreate ''What is the leave policy?'',
       QdrantSearch [1, 2, 3],
       SessionPost (question_payload ''What is the leave policy?''
         [JObj [(''text'', JStr ''Leave policy: 20 days''), (''file'', JStr ''hr.pdf'')]]),
       Send (JStr ''u2'') (JStr MSG_EMPTY_ANSWER)], None)"
  using missing_answer_placeholder
    [where message = leave_message and chat_id = "JStr ''u2''"
       and question = "''What is the leave policy?''"
       and env = "respond_with \<lparr>status = 200, json_result = Inr (JObj [(''id'', JInt 17)]),
                    text_result = Inr ''{}''\<rparr>"
       and embeddings_create = "\<lambda>text. Inr [[1, 2, 3]]" and v = "[1, 2, 3]" and vs = "[]"
       and hits = "[leave_hit]"
       and entries = "[JObj [(''text'', JStr ''Leave policy: 20 days''),
                             (''file'', JStr ''hr.pdf'')]]"
       and response = "\<lparr>status = 200, json_result = Inr (JObj [(''id'', JInt 17)]),
                    text_result = Inr ''{}''\<rparr>"
       and items = "[(''id'', JInt 17)]"]
  by (simp add: free_text_question_def leave_message_def chat_id_of_def stub_env_def
      respond_with_def leave_hit_def context_entry_def)

text \<open>
  The claim as stated fails: with status 202, a 2xx status, and a JSON object without an
  \<^verbatim>\<open>answer\<close> field, the reply is the generation-failure notice, not the placeholder.
\<close>

theorem missing_answer_2xx_counterexample:
  "outbound (fst (handle_text_message
       (respond_with \<lparr>status = 202, json_result = Inr (JObj [(''id'', JInt 17)]),
                      text_result = Inr ''{}''\<rparr>) leave_message)) =
     [(JStr ''u2'', JStr MSG_SEARCHING), (JStr ''u2'', JStr MSG_GENERATION_FAILED)] \<and>
   JStr MSG_GENERATION_FAILED \<noteq> JStr MSG_EMPTY_ANSWER"
  by (simp add: handle_text_message_def rag_logic_def rag_try_def send_message_def
      leave_message_def chat_id_of_def stub_env_def respond_with_def leave_hit_def
      context_entry_def MSG_GENERATION_FAILED_def MSG_EMPTY_ANSWER_def)

section \<open>Events without a chat identifier and button presses\<close>

lemma chat_id_of_explicit:
  "py_get message ''chat'' (JObj []) = Inr (JObj chat) \<Longrightarrow>
   map_of chat ''chat_id'' = Some c \<Longrightarrow> truthy c \<Longrightarrow> chat_id_of message = Inr c"
  by (simp add: chat_id_of_def)

lemma chat_id_of_sender:
  "message = JObj items \<Longrightarrow> map_of items ''chat'' = Some (JObj chat) \<Longrightarrow>
   map_of chat ''chat_id'' = None \<Longrightarrow> map_of items ''from'' = Some (JObj sender) \<Longrightarrow>
   chat_id_of message =
     Inr (if map_of chat ''type'' = Some (JStr ''private'')
          then (case map_of sender ''login'' of None \<Rightarrow> JNull | Some login \<Rightarrow> login)
          else JNull)"
  by (simp add: chat_id_of_def split: option.split)

lemma handle_text_message_unresolved:
  "chat_id_of message = Inl e \<or> (chat_id_of message = Inr chat_id \<and> \<not> truthy chat_id) \<Longrightarrow>
   fst (handle_text_message env message) = []"
  by (auto simp: handle_text_message_def split: sum.split)

lemma handle_callback_query_no_login:
  "py_get callback_query ''from'' (JObj []) = Inr sender \<Longrightarrow>
   py_get sender ''login'' JNull = Inr login \<Longrightarrow> \<not> truthy login \<Longrightarrow>
   handle_callback_query callback_query = ([], None)"
  by (simp add: handle_callback_query_def)

text \<open>
  Where an event without a chat identifier is ignored. For an event handled as a text message,
  the chat identifier is the field \<^verbatim>\<open>chat.chat_id\<close> when it is there and true, and
  otherwise the sender's login when the chat type is \<^verbatim>\<open>private\<close>. When this gives no
  identifier (or raises), the text handler does nothing at all, so it sends nothing, whatever
  the text is. A button press is ignored when it carries no sender login.
\<close>

lemma unresolved_events_ignored:
  "(chat_id_of message = Inl e \<or> (chat_id_of message = Inr chat_id \<and> \<not> truthy chat_id) \<longrightarrow>
      fst (handle_text_message env message) = [] \<and>
      outbound (fst (run_task env (TextTask message))) = []) \<and>
   (py_get message ''chat'' (JObj []) = Inr (JObj chat) \<and>
    map_of chat ''chat_id'' = Some c \<and> truthy c \<longrightarrow> chat_id_of message = Inr c) \<and>
   (message = JObj items \<and> map_of items ''chat'' = Some (JObj chat) \<and>
    map_of chat ''chat_id'' = None \<and> map_of items ''from'' = Some (JObj sender) \<longrightarrow>
      chat_id_of message =
        Inr (if map_of chat ''type'' = Some (JStr ''private'')
             then (case map_of sender ''login'' of None \<Rightarrow> JNull | Some login \<Rightarrow> login)
             else JNull)) \<and>
   (py_get message ''from'' (JObj []) = Inr from_field \<and>
    py_get from_field ''login'' JNull = Inr login \<and> \<not> truthy login \<longrightarrow>
      run_task env (CallbackTask message) = ([], None))"
proof (intro conjI impI)
  assume h: "chat_id_of message = Inl e \<or>
    (chat_id_of message = Inr chat_id \<and> \<not> truthy chat_id)"
  show n: "fst (handle_text_message env message) = []"
    by (rule handle_text_message_unresolved [OF h])
  show "outbound (fst (run_task env (TextTask message))) = []"
    by (simp add: run_task_def n)
next
  assume "py_get message ''chat'' (JObj []) = Inr (JObj chat) \<and>
    map_of chat ''chat_id'' = Some c \<and> truthy c"
  then show "chat_id_of message = Inr c" by (simp add: chat_id_of_explicit)
next
  assume "message = JObj items \<and> map_of items ''chat'' = Some (JObj chat) \<and>
    map_of chat ''chat_id'' = None \<and> map_of items ''from'' = Some (JObj sender)"
  then show "chat_id_of message =
        Inr (if map_of chat ''type'' = Some (JStr ''private'')
             then (case map_of sender ''login'' of None \<Rightarrow> JNull | Some login \<Rightarrow> login)
             else JNull)"
    using chat_id_of_sender [of message items chat sender] by simp
next
  assume "py_get message ''from'' (JObj []) = Inr from_field \<and>
    py_get from_field ''login'' JNull = Inr login \<and> \<not> truthy login"
  then show "run_task env (CallbackTask message) = ([], None)"
    by (simp add: run_task_def handle_callback_query_no_login)
qed

text \<open>
  For example, \<^verbatim>\<open>/start\<close> typed in a group chat, in a message that names its sender and
  no chat identifier, has no chat identifier and gets no reply, and the question of the private
  chat is resolved to its sender \<^verbatim>\<open>u3\<close>.
\<close>

lemma unresolved_events_ignored_example:
  "chat_id_of group_text_message = Inr JNull \<and>
   handle_text_message stub_env group_text_message = ([], None) \<and>
   chat_id_of help_message = Inr (JStr ''u1'') \<and>
   chat_id_of private_message = Inr (JStr ''u3'')"
  using unresolved_events_ignored
    [where message = group_text_message and chat_id = JNull and env = stub_env
       and items = "[(''chat'', JObj [(''type'', JStr ''group'')]),
                     (''from'', JObj [(''login'', JStr ''u5'')]),
                     (''text'', JStr ''/start'')]"
       and chat = "[(''type'', JStr ''group'')]"
       and sender = "[(''login'', JStr ''u5'')]"]
    unresolved_events_ignored
    [where message = help_message and chat = "[(''chat_id'', JStr ''u1'')]"
       and c = "JStr ''u1''"]
    unresolved_events_ignored
    [where message = private_message
       and items = "[(''chat'', JObj [(''type'', JStr ''private'')]),
                     (''from'', JObj [(''login'', JStr ''u3'')]),
                     (''text'', JStr ''xyz'')]"
       and chat = "[(''type'', JStr ''private'')]"
       and sender = "[(''login'', JStr ''u3'')]"]
  by (simp add: group_text_message_def help_message_def private_message_def
      handle_text_message_def chat_id_of_def)

text \<open>
  Claim C5 does not hold of the code. An event without a chat identifier must be ignored, and
  \<^verbatim>\<open>handle_text_message\<close> does ignore it (lines 69-79), using the sender's login in a
  private chat only. \<^verbatim>\<open>handle_callback_query\<close> does not share this resolution: it sends
  to the sender's login whatever the chat is (line 59). A button press in a group chat whose
  message names its sender \<^verbatim>\<open>u4\<close> and no chat identifier has no chat identifier by the
  order of the claim; the loop hands it to \<^verbatim>\<open>handle_callback_query\<close>, and a message is
  sent to \<^verbatim>\<open>u4\<close>.
\<close>

theorem unresolved_button_press_answered:
  "chat_id_of sender_button_message = Inr JNull \<and>
   loop_body 0 (JObj [(''update_id'', JInt 1), (''message'', sender_button_message)]) =
     (2, Inr [CallbackTask sender_button_message]) \<and>
   outbound (fst (run_task stub_env (CallbackTask sender_button_message))) =
     [(JStr ''u4'', JStr MSG_UNSUPPORTED)]"
  by (simp add: sender_button_message_def chat_id_of_def loop_body_def run_task_def
      handle_callback_query_def send_message_def)

text \<open>
  Claim C7 does not hold of the code. \<^verbatim>\<open>handle_callback_query\<close> reads the sender's
  login only (line 59) and not the chat identifier that \<^verbatim>\<open>handle_text_message\<close>
  resolves. A button press in a group chat that names its chat \<^verbatim>\<open>c1\<close> and no sender is
  dispatched to the handler and dropped without a notice; the same press with the sender
  \<^verbatim>\<open>u4\<close> is answered to \<^verbatim>\<open>u4\<close> and not to the chat \<^verbatim>\<open>c1\<close>.
\<close>

theorem button_notice_not_sent_to_chat:
  "chat_id_of group_button_message = Inr (JStr ''c1'') \<and>
   loop_body 0 (JObj [(''update_id'', JInt 1), (''message'', group_button_message)]) =
     (2, Inr [CallbackTask group_button_message]) \<and>
   run_task stub_env (CallbackTask group_button_message) = ([], None) \<and>
   chat_id_of member_button_message = Inr (JStr ''c1'') \<and>
   outbound (fst (run_task stub_env (CallbackTask member_button_message))) =
     [(JStr ''u4'', JStr MSG_UNSUPPORTED)]"
  by (simp add: group_button_message_def member_button_message_def chat_id_of_def
      loop_body_def run_task_def handle_callback_query_def send_message_def)


end
